theory Spec2Isabelle
  imports Complex_Main
begin

section \<open>Legacy import engine: values and numeric normalization\<close>

text \<open>
  Shallow embedding of \<^verbatim>\<open>backend/src/services/legacy-importer.ts\<close>.

  Strings are lists of 8-bit characters: the legacy tables are decoded as latin1, so every
  character of a staged value is a code point below 256.

  A JavaScript number is modelled by \<open>jsnum\<close>: \<open>Finite q\<close> is the finite IEEE-754
  binary64 number whose value is the rational \<open>q\<close> (the two zeros are not told apart).
\<close>

datatype jsnum = Finite rat | PosInfinity | NegInfinity | NaN

datatype jsval = VNull | VUndefined | VNum jsnum | VStr string

subsection \<open>The built-ins \<^verbatim>\<open>String.prototype.trim\<close>, \<^verbatim>\<open>Number\<close> and \<^verbatim>\<open>String.prototype.replace\<close>\<close>

text \<open>White space and line terminators of ECMAScript that exist in latin1.\<close>

definition is_ws :: "char \<Rightarrow> bool" where
  "is_ws c \<longleftrightarrow> c \<in> {CHR 0x09, CHR 0x0A, CHR 0x0B, CHR 0x0C, CHR 0x0D, CHR 0x20, CHR 0xA0}"

definition js_trim :: "string \<Rightarrow> string" where
  "js_trim s = rev (dropWhile is_ws (rev (dropWhile is_ws s)))"

definition is_digit :: "char \<Rightarrow> bool" where
  "is_digit c \<longleftrightarrow> c \<in> set ''0123456789''"

definition is_hex_digit :: "char \<Rightarrow> bool" where
  "is_hex_digit c \<longleftrightarrow> c \<in> set ''0123456789abcdefABCDEF''"

definition is_octal_digit :: "char \<Rightarrow> bool" where
  "is_octal_digit c \<longleftrightarrow> c \<in> set ''01234567''"

definition is_binary_digit :: "char \<Rightarrow> bool" where
  "is_binary_digit c \<longleftrightarrow> c \<in> set ''01''"

definition digit_val :: "char \<Rightarrow> nat" where
  "digit_val c =
     (if is_digit c then of_char c - 48
      else if c \<in> set ''abcdef'' then of_char c - 87
      else of_char c - 55)"

definition digits_val :: "nat \<Rightarrow> string \<Rightarrow> nat" where
  "digits_val base ds = foldl (\<lambda>acc c. acc * base + digit_val c) 0 ds"

text \<open>
  The Number value of a non-negative mathematical value \<open>n / d\<close> (\<open>d > 0\<close>): the nearest
  binary64 number, ties to the even significand, \<open>Infinity\<close> from \<open>2^1024 - 2^970\<close> on.

  \<open>exp_up n d 0\<close> is the exponent \<open>e\<close> of the binade of \<open>n / d \<ge> 1\<close>, that is
  \<open>2^e \<le> n / d < 2^(e + 1)\<close>, searched up to 1024; \<open>exp_down n d 0\<close> is \<open>j\<close> with
  \<open>2^(- j) \<le> n / d < 2^(1 - j)\<close> for \<open>n / d < 1\<close>, searched down to the binade of the
  subnormal numbers, \<open>j = 1022\<close>. A number of the binade \<open>e\<close> is a multiple of \<open>2^(e - 52)\<close>.
\<close>

function exp_up :: "nat \<Rightarrow> nat \<Rightarrow> nat \<Rightarrow> nat" where
  "exp_up n d e = (if e < 1024 \<and> d * 2 ^ (e + 1) \<le> n then exp_up n d (e + 1) else e)"
  by pat_completeness auto
termination
  by (relation "measure (\<lambda>(n, d, e). 1024 - e)") auto

declare exp_up.simps [simp del]

function exp_down :: "nat \<Rightarrow> nat \<Rightarrow> nat \<Rightarrow> nat" where
  "exp_down n d j = (if j < 1022 \<and> n * 2 ^ j < d then exp_down n d (j + 1) else j)"
  by pat_completeness auto
termination
  by (relation "measure (\<lambda>(n, d, j). 1022 - j)") auto

declare exp_down.simps [simp del]

text \<open>The integer nearest to \<open>a / b\<close>, the even one of two that are equally near.\<close>

definition round_half_even :: "nat \<Rightarrow> nat \<Rightarrow> nat" where
  "round_half_even a b =
     (if 2 * (a mod b) < b then a div b
      else if b < 2 * (a mod b) then a div b + 1
      else if even (a div b) then a div b
      else a div b + 1)"

definition round_mv :: "nat \<times> nat \<Rightarrow> jsnum" where
  "round_mv f =
     (case f of (n, d) \<Rightarrow>
        if n = 0 then Finite 0
        else if d \<le> n then
          (let e = exp_up n d 0
           in if 52 \<le> e then
                (let m = round_half_even n (d * 2 ^ (e - 52))
                 in if 2 ^ 1024 \<le> m * 2 ^ (e - 52) then PosInfinity
                    else Finite (of_nat (m * 2 ^ (e - 52))))
              else Finite (of_nat (round_half_even (n * 2 ^ (52 - e)) d) / 2 ^ (52 - e)))
        else
          (let j = exp_down n d 0
           in Finite (of_nat (round_half_even (n * 2 ^ (j + 52)) d) / 2 ^ (j + 52))))"

text \<open>
  The mathematical value of a decimal literal with the digits \<open>ip\<close> before the point, the
  digits \<open>fp\<close> after it and the exponent \<open>e\<close>, as numerator and denominator.
\<close>

definition decimal_mv :: "string \<Rightarrow> string \<Rightarrow> int \<Rightarrow> nat \<times> nat" where
  "decimal_mv ip fp e =
     (let n = digits_val 10 (ip @ fp); k = e - int (length fp)
      in if 0 \<le> k then (n * 10 ^ nat k, 1) else (n, 10 ^ nat (- k)))"

text \<open>\<^verbatim>\<open>SignedInteger\<close> of an exponent part: the whole rest of the literal.\<close>

definition parse_exponent :: "string \<Rightarrow> int option" where
  "parse_exponent s =
     (case s of
        [] \<Rightarrow> None
      | c # r \<Rightarrow>
          if c = CHR ''+'' then
            (if r \<noteq> [] \<and> list_all is_digit r then Some (int (digits_val 10 r)) else None)
          else if c = CHR ''-'' then
            (if r \<noteq> [] \<and> list_all is_digit r then Some (- int (digits_val 10 r)) else None)
          else if list_all is_digit s then Some (int (digits_val 10 s))
          else None)"

text \<open>\<^verbatim>\<open>StrUnsignedDecimalLiteral\<close>; \<open>None\<close> is a syntax error.\<close>

definition parse_unsigned_decimal :: "string \<Rightarrow> jsnum option" where
  "parse_unsigned_decimal s =
     (if s = ''Infinity'' then Some PosInfinity
      else
        let ip = takeWhile is_digit s;
            r1 = dropWhile is_digit s;
            hasdot = (r1 \<noteq> [] \<and> hd r1 = CHR ''.'');
            fp = (if hasdot then takeWhile is_digit (tl r1) else []);
            r2 = (if hasdot then dropWhile is_digit (tl r1) else r1)
        in if ip = [] \<and> fp = [] then None
           else if r2 = [] then Some (round_mv (decimal_mv ip fp 0))
           else if hd r2 = CHR ''e'' \<or> hd r2 = CHR ''E'' then
             (case parse_exponent (tl r2) of
                None \<Rightarrow> None
              | Some e \<Rightarrow> Some (round_mv (decimal_mv ip fp e)))
           else None)"

definition negate :: "jsnum \<Rightarrow> jsnum" where
  "negate n =
     (case n of Finite q \<Rightarrow> Finite (- q) | PosInfinity \<Rightarrow> NegInfinity
      | NegInfinity \<Rightarrow> PosInfinity | NaN \<Rightarrow> NaN)"

text \<open>\<^verbatim>\<open>StrDecimalLiteral\<close>: an optional sign and an unsigned literal.\<close>

definition parse_decimal :: "string \<Rightarrow> jsnum option" where
  "parse_decimal s =
     (case s of
        [] \<Rightarrow> None
      | c # r \<Rightarrow>
          if c = CHR ''+'' then parse_unsigned_decimal r
          else if c = CHR ''-'' then map_option negate (parse_unsigned_decimal r)
          else parse_unsigned_decimal s)"

text \<open>\<^verbatim>\<open>NonDecimalIntegerLiteral\<close>: \<^verbatim>\<open>0x\<close>, \<^verbatim>\<open>0o\<close>, \<^verbatim>\<open>0b\<close> and digits, no sign.\<close>

definition parse_nondecimal :: "string \<Rightarrow> jsnum option" where
  "parse_nondecimal s =
     (case s of
        z # x # ds \<Rightarrow>
          if z \<noteq> CHR ''0'' \<or> ds = [] then None
          else if (x = CHR ''x'' \<or> x = CHR ''X'') \<and> list_all is_hex_digit ds then
            Some (round_mv (digits_val 16 ds, 1))
          else if (x = CHR ''o'' \<or> x = CHR ''O'') \<and> list_all is_octal_digit ds then
            Some (round_mv (digits_val 8 ds, 1))
          else if (x = CHR ''b'' \<or> x = CHR ''B'') \<and> list_all is_binary_digit ds then
            Some (round_mv (digits_val 2 ds, 1))
          else None
      | _ \<Rightarrow> None)"

text \<open>
  \<^verbatim>\<open>Number(str)\<close>: white space is trimmed; the empty literal is \<open>0\<close>; a literal that does
  not match the grammar is \<open>NaN\<close>.
\<close>

definition StringToNumber :: "string \<Rightarrow> jsnum" where
  "StringToNumber s =
     (let t = js_trim s
      in if t = [] then Finite 0
         else case parse_nondecimal t of
                Some v \<Rightarrow> v
              | None \<Rightarrow> (case parse_decimal t of Some v \<Rightarrow> v | None \<Rightarrow> NaN))"

text \<open>\<^verbatim>\<open>str.replace(p, r)\<close> with one-character strings: the first occurrence only.\<close>

fun replace_first :: "char \<Rightarrow> char \<Rightarrow> string \<Rightarrow> string" where
  "replace_first p r [] = []"
| "replace_first p r (c # cs) = (if c = p then r # cs else c # replace_first p r cs)"

definition isFinite :: "jsnum \<Rightarrow> rat option" where
  "isFinite n = (case n of Finite q \<Rightarrow> Some q | _ \<Rightarrow> None)"

subsection \<open>\<^verbatim>\<open>normalizeNumber\<close>\<close>

text \<open>
  \<^verbatim>\<open>
  function normalizeNumber(value: unknown): number | null {
    if (value == null || value === '') return null;
    if (typeof value === 'number') return Number.isFinite(value) ? value : null;
    const parsed = Number(String(value).replace(',', '.'));
    return Number.isFinite(parsed) ? parsed : null;
  }
  \<close>
  \<open>None\<close> is \<^verbatim>\<open>null\<close>.
\<close>

fun normalizeNumber :: "jsval \<Rightarrow> rat option" where
  "normalizeNumber VNull = None"
| "normalizeNumber VUndefined = None"
| "normalizeNumber (VNum n) = isFinite n"
| "normalizeNumber (VStr s) =
     (if s = [] then None
      else isFinite (StringToNumber (replace_first (CHR '','') (CHR ''.'') s)))"

subsection \<open>Slot expansion: \<^verbatim>\<open>extractSaleItems\<close>\<close>

text \<open>
  A row returned by a query on a staging table: every column is text, so a cell is a
  string or \<^verbatim>\<open>null\<close>. \<open>row k = None\<close> is a \<^verbatim>\<open>null\<close> cell or a missing property.
\<close>

type_synonym row = "string \<rightharpoonup> string"

definition cell :: "row \<Rightarrow> string \<Rightarrow> jsval" where
  "cell r k = (case r k of None \<Rightarrow> VNull | Some s \<Rightarrow> VStr s)"

text \<open>Decimal rendering of an index, for the template literals \<^verbatim>\<open>`cod${index}`\<close>.\<close>

fun show_nat :: "nat \<Rightarrow> string" where
  "show_nat n =
     (if n < 10 then [''0123456789'' ! n]
      else show_nat (n div 10) @ [''0123456789'' ! (n mod 10)])"

declare show_nat.simps [simp del]

record sale_item_in =
  cod :: string
  quantity :: rat
  price :: rat
  total :: rat

text \<open>\<^verbatim>\<open>normalizeNumber(x) ?? 0\<close>\<close>

definition or_zero :: "rat option \<Rightarrow> rat" where
  "or_zero v = (case v of None \<Rightarrow> 0 | Some q \<Rightarrow> q)"

text \<open>
  \<^verbatim>\<open>
  for (let index = 1; index <= 7; index += 1) {
    const code = row[`cod${index}`];
    if (!code) continue;
    items.push({ cod: String(code).trim(),
                 quantity: normalizeNumber(row[`qtde${index}`]) ?? 0,
                 price: normalizeNumber(row[`vlr${index}`]) ?? 0,
                 total: normalizeNumber(row[`total${index}`]) ?? 0 });
  }
  \<close>
\<close>

function extract_loop :: "row \<Rightarrow> nat \<Rightarrow> sale_item_in list \<Rightarrow> sale_item_in list" where
  "extract_loop r index items =
     (if index \<le> 7 then
        (case r (''cod'' @ show_nat index) of
           None \<Rightarrow> extract_loop r (index + 1) items
         | Some code \<Rightarrow>
             if code = [] then extract_loop r (index + 1) items
             else extract_loop r (index + 1)
                    (items @
                     [\<lparr>cod = js_trim code,
                       quantity = or_zero (normalizeNumber (cell r (''qtde'' @ show_nat index))),
                       price = or_zero (normalizeNumber (cell r (''vlr'' @ show_nat index))),
                       total = or_zero (normalizeNumber (cell r (''total'' @ show_nat index)))\<rparr>]))
      else items)"
  by pat_completeness auto
termination
  by (relation "measure (\<lambda>(r, index, items). 8 - index)") auto

declare extract_loop.simps [simp del]

definition extractSaleItems :: "row \<Rightarrow> sale_item_in list" where
  "extractSaleItems r = extract_loop r 1 []"

section \<open>The database and the platform\<close>

text \<open>
  A failed statement or library call raises; the exception travels up to the \<^verbatim>\<open>catch\<close> of
  \<^verbatim>\<open>processQueue\<close>. The first constructor is the only error the importer constructs itself;
  the others are raised by the database, the table reader or the file system.
\<close>

datatype failure =
    MissingRequiredFile string
  | PrepareError string
  | DbfOpenError string
  | InvalidNumeric string
  | NumericOverflow string string
  | NotNullViolation string string
  | CheckViolation string string
  | CardinalityViolation string

text \<open>
  What the importer takes from outside: the \<^verbatim>\<open>::numeric\<close> cast of PostgreSQL (\<open>None\<close>: invalid
  input syntax), \<^verbatim>\<open>new Date(s).getTime()\<close> (\<open>None\<close>: an invalid date), the result of
  \<^verbatim>\<open>prepareLegacyFiles\<close> on a session directory (the walk of the directory and the
  extraction of archives are not modelled; their result, the map from upper-cased base
  name to path, is), and \<^verbatim>\<open>DBFFile.open\<close> with the records of the file.
\<close>

datatype dbfval = DNull | DDate string | DOther string

type_synonym dbf_record = "string \<Rightarrow> dbfval"

record platform =
  numeric_in :: "string \<Rightarrow> rat option"
  Date_parse :: "string \<Rightarrow> int option"
  prepareLegacyFiles :: "string \<Rightarrow> failure + (string \<rightharpoonup> string)"
  DBFFile_open :: "string \<Rightarrow> failure + dbf_record list"

subsection \<open>Rows of the core tables\<close>

type_synonym uuid = nat

text \<open>
  The five reference tables share the shape (id, unique legacy code, other columns).
  For \<^verbatim>\<open>product_group\<close>, \<^verbatim>\<open>seller\<close> and \<^verbatim>\<open>payment_term\<close> the other columns are the name.
\<close>

record 'c entity =
  row_id :: uuid
  legacy_code :: "string option"
  cols :: 'c

record product_cols =
  product_name :: string
  barcode :: "string option"
  group_id :: "uuid option"
  reference :: "string option"
  min_stock :: "rat option"
  price_cash :: "rat option"
  price_base :: "rat option"

record customer_cols =
  customer_name :: string
  cpf :: "string option"
  address :: "string option"
  city :: "string option"
  uf :: "string option"
  cep :: "string option"
  phone :: "string option"
  customer_status :: string
  credit_limit :: "rat option"
  customer_notes :: "string option"

record sale_cols =
  emission_date :: int
  order_number :: "string option"
  seller_id :: "uuid option"
  customer_id :: "uuid option"
  payment_term_id :: "uuid option"
  subtotal :: "rat option"
  discount :: "rat option"
  sale_total :: "rat option"

record sale_row =
  sale_id :: uuid
  sale_values :: sale_cols
  sale_status :: string
  source :: "string option"
  source_key :: "string option"

record sale_item_row =
  item_id :: uuid
  item_sale_id :: "uuid option"
  item_product_id :: "uuid option"
  item_quantity :: rat
  item_unit_price :: "rat option"
  item_total :: "rat option"

record customer_payment_row =
  payment_id :: uuid
  payment_customer_id :: "uuid option"
  payment_date :: "int option"
  document_value :: "rat option"
  paid_value :: "rat option"
  remaining :: "rat option"

record stock_movement_row =
  movement_id :: uuid
  movement_date :: int
  movement_type :: string
  movement_product_id :: "uuid option"
  movement_quantity :: rat
  unit_value :: "rat option"
  movement_total :: "rat option"
  note_number :: "string option"

subsection \<open>The job tables\<close>

datatype level = info | warn | error

datatype status = queued | running | completed | failed

datatype log_message = Msg string | Raised failure

record log_row =
  import_id :: uuid
  log_level :: level
  message :: log_message

record SaleSummary =
  sales :: nat
  saleItems :: nat
  orders :: nat
  orderItems :: nat
  mismatches :: "string list"

record overallSummary =
  staging_summary :: "(string \<times> nat) list"
  master_summary :: "(string \<times> nat) list"
  sales_summary :: SaleSummary
  customerPayments :: nat
  stockMovements :: nat
  reportPath :: string

record import_row =
  imp_id :: uuid
  session_id :: string
  session_dir :: string
  imp_overwrite :: bool
  imp_status :: status
  created_at :: nat
  created_by :: string
  started_at :: "nat option"
  finished_at :: "nat option"
  report_path :: "string option"
  summary :: "overallSummary option"
  error_message :: "failure option"

subsection \<open>Statements and state\<close>

text \<open>
  Every statement that changes the schema or the data is recorded in \<open>executed\<close> once it
  has taken effect. What happens to the status of a job is recorded in \<open>status_changes\<close>,
  one entry for each row a statement changes: (id, old status, new status) for the update
  of \<^verbatim>\<open>updateImportStatus\<close>, the id for the reset of the startup recovery.
\<close>

datatype change = Update uuid status status | Recovery uuid

datatype stmt =
    CreateExtension string
  | CreateTable string
  | AlterTable string string
  | CreateIndex string
  | Truncate string
  | InsertInto string
  | DeleteFrom string
  | UpdateTable string

text \<open>
  The tables, the supply of fresh ids (\<^verbatim>\<open>gen_random_uuid()\<close>), the clock read by
  \<^verbatim>\<open>new Date()\<close> and \<^verbatim>\<open>Date.now()\<close> (it is only read; the passing of time is not modelled),
  and the files written.
\<close>

record state =
  staging :: "string \<Rightarrow> row list"
  product_group :: "string entity list"
  product :: "product_cols entity list"
  customer :: "customer_cols entity list"
  seller :: "string entity list"
  payment_term :: "string entity list"
  sale :: "sale_row list"
  sale_item :: "sale_item_row list"
  customer_payment :: "customer_payment_row list"
  stock_movement :: "stock_movement_row list"
  next_id :: uuid
  system_legacy_import :: "import_row list"
  system_legacy_import_log :: "log_row list"
  executed :: "stmt list"
  status_changes :: "change list"
  clock :: nat
  written_files :: "(string \<times> string list) list"

type_synonym 'a io = "state \<Rightarrow> (failure + 'a) \<times> state"

definition returnE :: "'a \<Rightarrow> 'a io" where
  "returnE x = (\<lambda>s. (Inr x, s))"

definition throwE :: "failure \<Rightarrow> 'a io" where
  "throwE e = (\<lambda>s. (Inl e, s))"

definition bindE :: "'a io \<Rightarrow> ('a \<Rightarrow> 'b io) \<Rightarrow> 'b io" where
  "bindE m f = (\<lambda>s. case m s of (Inl e, s') \<Rightarrow> (Inl e, s') | (Inr x, s') \<Rightarrow> f x s')"

definition exec :: "stmt \<Rightarrow> state \<Rightarrow> state" where
  "exec q s = s\<lparr>executed := executed s @ [q]\<rparr>"


section \<open>Staging\<close>

definition REQUIRED_FILES :: "string list" where
  "REQUIRED_FILES = [''PRODUTO.DBF'', ''GRUPO.DBF'', ''CLIENTES.DBF'', ''VENDEDOR.DBF'', ''VENDAS.DBF'']"

record StagingConfig =
  dbf_file :: string
  table :: string
  columns :: "(string \<times> string) list"

text \<open>The columns of \<^verbatim>\<open>stg_vendas\<close> and \<^verbatim>\<open>stg_pedidos\<close>, as (name, field) pairs.\<close>

definition sale_columns :: "(string \<times> string) list" where
  "sale_columns =
     [(''pedido'', ''PEDIDO''), (''emissao'', ''EMISSAO''), (''cod_vend'', ''COD_VEND''),
      (''cod_cli'', ''COD_CLI''), (''cod_fpg'', ''COD_FPG''), (''sub_total'', ''SUB_TOTAL''),
      (''desconto'', ''DESCONTO''), (''total_gera'', ''TOTAL_GERA''),
      (''cod1'', ''COD1''), (''cod2'', ''COD2''), (''cod3'', ''COD3''), (''cod4'', ''COD4''),
      (''cod5'', ''COD5''), (''cod6'', ''COD6''), (''cod7'', ''COD7''),
      (''qtde1'', ''QTDE1''), (''qtde2'', ''QTDE2''), (''qtde3'', ''QTDE3''), (''qtde4'', ''QTDE4''),
      (''qtde5'', ''QTDE5''), (''qtde6'', ''QTDE6''), (''qtde7'', ''QTDE7''),
      (''vlr1'', ''VLR1''), (''vlr2'', ''VLR2''), (''vlr3'', ''VLR3''), (''vlr4'', ''VLR4''),
      (''vlr5'', ''VLR5''), (''vlr6'', ''VLR6''), (''vlr7'', ''VLR7''),
      (''total1'', ''TOTAL1''), (''total2'', ''TOTAL2''), (''total3'', ''TOTAL3''),
      (''total4'', ''TOTAL4''), (''total5'', ''TOTAL5''), (''total6'', ''TOTAL6''),
      (''total7'', ''TOTAL7'')]"

definition STAGING_CONFIG :: "StagingConfig list" where
  "STAGING_CONFIG =
     [\<lparr>dbf_file = ''GRUPO.DBF'', table = ''stg_grupo'',
       columns = [(''cod_grup'', ''COD_GRUP''), (''nome'', ''NOME'')]\<rparr>,
      \<lparr>dbf_file = ''PRODUTO.DBF'', table = ''stg_produto'',
       columns = [(''cod_prod'', ''COD_PROD''), (''nome_prod'', ''NOME_PROD''),
                  (''cod_barra'', ''COD_BARRA''), (''referencia'', ''REFERENCIA''),
                  (''cod_grup'', ''COD_GRUP''), (''esto_min'', ''ESTO_MIN''),
                  (''avista'', ''AVISTA''), (''preco_base'', ''PRECO_BASE'')]\<rparr>,
      \<lparr>dbf_file = ''CLIENTES.DBF'', table = ''stg_clientes'',
       columns = [(''codigo'', ''CODIGO''), (''nome'', ''NOME''), (''cpf'', ''CPF''),
                  (''endereco'', ''ENDERECO''), (''cidade'', ''CIDADE''), (''uf'', ''UF''),
                  (''cep'', ''CEP''), (''fone'', ''FONE''), (''status'', ''STATUS''),
                  (''obs'', ''OBS'')]\<rparr>,
      \<lparr>dbf_file = ''VENDEDOR.DBF'', table = ''stg_vendedor'',
       columns = [(''codigo'', ''CODIGO''), (''nome'', ''NOME'')]\<rparr>,
      \<lparr>dbf_file = ''FORMA_PG.DBF'', table = ''stg_forma_pg'',
       columns = [(''cod_fpg'', ''COD_FPG''), (''forma'', ''FORMA'')]\<rparr>,
      \<lparr>dbf_file = ''VENDAS.DBF'', table = ''stg_vendas'', columns = sale_columns\<rparr>,
      \<lparr>dbf_file = ''PEDIDOS.DBF'', table = ''stg_pedidos'', columns = sale_columns\<rparr>,
      \<lparr>dbf_file = ''PAGAMENT.DBF'', table = ''stg_pagament'',
       columns = [(''cod_cli'', ''COD_CLI''), (''valor_doc'', ''VALOR_DOC''),
                  (''vlr_pago'', ''VLR_PAGO''), (''restante'', ''RESTANTE''),
                  (''pagamento'', ''PAGAMENTO'')]\<rparr>,
      \<lparr>dbf_file = ''MOV_EST.DBF'', table = ''stg_mov_est'',
       columns = [(''tip_mov'', ''TIP_MOV''), (''data'', ''DATA''), (''cod_prod'', ''COD_PROD''),
                  (''qtde'', ''QTDE''), (''valor'', ''VALOR''), (''total'', ''TOTAL''),
                  (''nf'', ''NF'')]\<rparr>]"

subsection \<open>\<^verbatim>\<open>appendLog\<close> and \<^verbatim>\<open>updateImportStatus\<close>\<close>

definition appendLog :: "uuid \<Rightarrow> level \<Rightarrow> log_message \<Rightarrow> unit io" where
  "appendLog importId lv m =
     (\<lambda>s. (Inr (),
        exec (InsertInto ''system_legacy_import_log'')
          (s\<lparr>system_legacy_import_log :=
                system_legacy_import_log s @
                [\<lparr>import_id = importId, log_level = lv, message = m\<rparr>]\<rparr>)))"

text \<open>The \<^verbatim>\<open>fields\<close> argument: the columns set besides \<^verbatim>\<open>status\<close>.\<close>

datatype field =
    Started_at "nat option"
  | Finished_at nat
  | Summary overallSummary
  | Report_path string
  | Error_message "failure option"

fun set_field :: "import_row \<Rightarrow> field \<Rightarrow> import_row" where
  "set_field r (Started_at t) = r\<lparr>started_at := t\<rparr>"
| "set_field r (Finished_at t) = r\<lparr>finished_at := Some t\<rparr>"
| "set_field r (Summary j) = r\<lparr>summary := Some j\<rparr>"
| "set_field r (Report_path p) = r\<lparr>report_path := Some p\<rparr>"
| "set_field r (Error_message e) = r\<lparr>error_message := e\<rparr>"

text \<open>\<^verbatim>\<open>update system_legacy_import set status = $2, ... where id = $1\<close>\<close>

definition updateImportStatus :: "uuid \<Rightarrow> status \<Rightarrow> field list \<Rightarrow> unit io" where
  "updateImportStatus importId st flds =
     (\<lambda>s. (Inr (),
        exec (UpdateTable ''system_legacy_import'')
          (s\<lparr>system_legacy_import :=
                map (\<lambda>r. if imp_id r = importId
                          then foldl set_field (r\<lparr>imp_status := st\<rparr>) flds else r)
                    (system_legacy_import s),
             status_changes :=
                status_changes s @
                map (\<lambda>r. Update importId (imp_status r) st)
                    (filter (\<lambda>r. imp_id r = importId) (system_legacy_import s))\<rparr>)))"

subsection \<open>Schema\<close>

definition ensureStagingTables :: "state \<Rightarrow> state" where
  "ensureStagingTables s =
     foldl (\<lambda>s config.
              foldl (\<lambda>s column. exec (AlterTable (table config) (fst column)) s)
                    (exec (CreateTable (table config)) s) (columns config))
           s STAGING_CONFIG"

definition ensureCoreTables :: "state \<Rightarrow> state" where
  "ensureCoreTables s =
     foldl (\<lambda>s t. exec (CreateTable t) s) s
       [''product_group'', ''product'', ''customer'', ''seller'', ''payment_term'', ''sale'',
        ''sale_item'', ''customer_payment'', ''stock_movement'']"

definition ensureLegacyImportTables :: "state \<Rightarrow> state" where
  "ensureLegacyImportTables s =
     foldl (\<lambda>s q. exec q s) s
       [CreateTable ''system_legacy_import'', CreateTable ''system_legacy_import_log'',
        CreateIndex ''idx_system_legacy_import_status'',
        CreateIndex ''idx_system_legacy_import_log_import'']"

text \<open>
  Every statement of \<^verbatim>\<open>ensureSchema\<close> is \<^verbatim>\<open>if not exists\<close>; the tables of the model always
  exist, so only the record of executed statements changes.
\<close>

definition ensureSchema :: "unit io" where
  "ensureSchema =
     (\<lambda>s. (Inr (),
        ensureStagingTables
          (ensureLegacyImportTables (ensureCoreTables (exec (CreateExtension ''pgcrypto'') s)))))"

subsection \<open>Truncation\<close>

text \<open>
  \<^verbatim>\<open>truncate t cascade\<close> empties \<open>t\<close> and every table with a foreign key to it, transitively.
\<close>

fun truncate_cascade :: "string \<Rightarrow> state \<Rightarrow> state" where
  "truncate_cascade t s =
     exec (Truncate t)
       (if t = ''sale_item'' then s\<lparr>sale_item := []\<rparr>
        else if t = ''sale'' then s\<lparr>sale := [], sale_item := []\<rparr>
        else if t = ''customer_payment'' then s\<lparr>customer_payment := []\<rparr>
        else if t = ''stock_movement'' then s\<lparr>stock_movement := []\<rparr>
        else if t = ''product'' then s\<lparr>product := [], sale_item := [], stock_movement := []\<rparr>
        else if t = ''product_group'' then
          s\<lparr>product_group := [], product := [], sale_item := [], stock_movement := []\<rparr>
        else if t = ''customer'' then
          s\<lparr>customer := [], sale := [], sale_item := [], customer_payment := []\<rparr>
        else if t = ''seller'' then s\<lparr>seller := [], sale := [], sale_item := []\<rparr>
        else if t = ''payment_term'' then s\<lparr>payment_term := [], sale := [], sale_item := []\<rparr>
        else s)"

definition truncateCoreTables :: "unit io" where
  "truncateCoreTables =
     (\<lambda>s. (Inr (),
        foldl (\<lambda>s t. truncate_cascade t s) s
          [''sale_item'', ''sale'', ''customer_payment'', ''stock_movement'', ''product'',
           ''product_group'', ''customer'', ''seller'', ''payment_term'']))"

definition truncate_staging :: "string \<Rightarrow> state \<Rightarrow> state" where
  "truncate_staging t s = exec (Truncate t) (s\<lparr>staging := (staging s)(t := [])\<rparr>)"

definition truncateStagingTables :: "unit io" where
  "truncateStagingTables =
     (\<lambda>s. (Inr (), foldl (\<lambda>s config. truncate_staging (table config) s) s STAGING_CONFIG))"

subsection \<open>\<^verbatim>\<open>loadDbfIntoStaging\<close>\<close>

definition ensureStagingTable :: "StagingConfig \<Rightarrow> state \<Rightarrow> state" where
  "ensureStagingTable config s = truncate_staging (table config) (exec (CreateTable (table config)) s)"

text \<open>
  The values of one record, in column order: a date as its ISO string, \<^verbatim>\<open>null\<close> as
  \<^verbatim>\<open>null\<close>, anything else as its trimmed string. The inserted row maps each column name
  to its value.
\<close>

definition staged_value :: "dbfval \<Rightarrow> string option" where
  "staged_value v = (case v of DDate isoString \<Rightarrow> Some isoString | DNull \<Rightarrow> None | DOther str \<Rightarrow> Some (js_trim str))"

definition staged_row :: "StagingConfig \<Rightarrow> dbf_record \<Rightarrow> row" where
  "staged_row config rcd =
     (\<lambda>name. case map_of (map (\<lambda>column. (fst column, staged_value (rcd (snd column))))
                              (columns config)) name of
               None \<Rightarrow> None
             | Some v \<Rightarrow> v)"

definition insert_staging :: "StagingConfig \<Rightarrow> dbf_record \<Rightarrow> state \<Rightarrow> state" where
  "insert_staging config rcd s =
     exec (InsertInto (table config))
       (s\<lparr>staging := (staging s)(table config := staging s (table config) @ [staged_row config rcd])\<rparr>)"

text \<open>
  \<^verbatim>\<open>
  while (true) {
    const records = await dbf.readRecords(500);
    if (!records.length) break;
    for (const record of records) { ...insert...; total += 1; }
  }
  \<close>
  \<open>unread\<close> is what the reader has not delivered yet.
\<close>

function read_loop :: "StagingConfig \<Rightarrow> dbf_record list \<Rightarrow> nat \<Rightarrow> state \<Rightarrow> nat \<times> state" where
  "read_loop config unread n s =
     (let records = take 500 unread
      in if records = [] then (n, s)
         else read_loop config (drop 500 unread) (n + length records)
                (foldl (\<lambda>s rcd. insert_staging config rcd s) s records))"
  by pat_completeness auto
termination
  by (relation "measure (\<lambda>(config, unread, n, s). length unread)") auto

declare read_loop.simps [simp del]

definition loadDbfIntoStaging ::
  "platform \<Rightarrow> uuid \<Rightarrow> StagingConfig \<Rightarrow> (string \<rightharpoonup> string) \<Rightarrow> nat io" where
  "loadDbfIntoStaging pf importId config files =
     (case files (dbf_file config) of
        None \<Rightarrow>
          bindE (appendLog importId warn
                   (Msg (''Optional file '' @ dbf_file config @ '' not provided; skipping.'')))
            (\<lambda>_. returnE 0)
      | Some filePath \<Rightarrow>
          if filePath = [] then
            bindE (appendLog importId warn
                     (Msg (''Optional file '' @ dbf_file config @ '' not provided; skipping.'')))
              (\<lambda>_. returnE 0)
          else
            (\<lambda>s. let s1 = ensureStagingTable config s
                  in case DBFFile_open pf filePath of
                       Inl e \<Rightarrow> (Inl e, s1)
                     | Inr records \<Rightarrow>
                         (case read_loop config records 0 s1 of (n, s2) \<Rightarrow> (Inr n, s2))))"


section \<open>Master data\<close>

subsection \<open>SQL expressions\<close>

text \<open>\<^verbatim>\<open>trim(x)\<close> of SQL removes spaces only, at both ends.\<close>

definition sql_trim :: "string \<Rightarrow> string" where
  "sql_trim x = rev (dropWhile (\<lambda>c. c = CHR '' '') (rev (dropWhile (\<lambda>c. c = CHR '' '') x)))"

text \<open>\<^verbatim>\<open>nullif(trim(x), '')\<close> on a nullable text.\<close>

definition nullif_trim :: "string option \<Rightarrow> string option" where
  "nullif_trim x =
     (case x of None \<Rightarrow> None | Some v \<Rightarrow> if sql_trim v = [] then None else Some (sql_trim v))"

text \<open>\<^verbatim>\<open>lower(x)\<close> on the ASCII letters.\<close>

definition sql_lower :: "string \<Rightarrow> string" where
  "sql_lower x =
     map (\<lambda>c. case map_of (zip ''ABCDEFGHIJKLMNOPQRSTUVWXYZ'' ''abcdefghijklmnopqrstuvwxyz'') c of
                 None \<Rightarrow> c | Some l \<Rightarrow> l) x"

text \<open>
  A value stored in a \<^verbatim>\<open>numeric(p, s)\<close> column is rounded to \<open>s\<close> decimals, half away from
  zero; the statement fails when the rounded value needs more than \<open>p - s\<close> integer digits.
\<close>

definition pg_round :: "nat \<Rightarrow> rat \<Rightarrow> rat" where
  "pg_round s q =
     (if 0 \<le> q then of_int \<lfloor>q * 10 ^ s + 1 / 2\<rfloor> / 10 ^ s
      else - (of_int \<lfloor>- q * 10 ^ s + 1 / 2\<rfloor> / 10 ^ s))"

definition numeric_col :: "string \<Rightarrow> string \<Rightarrow> nat \<Rightarrow> nat \<Rightarrow> rat option \<Rightarrow> failure + rat option" where
  "numeric_col t c p s v =
     (case v of
        None \<Rightarrow> Inr None
      | Some q \<Rightarrow>
          if 10 ^ (p - s) \<le> \<bar>pg_round s q\<bar> then Inl (NumericOverflow t c)
          else Inr (Some (pg_round s q)))"

text \<open>\<^verbatim>\<open>nullif(trim(x), '')::numeric\<close> assigned to a \<^verbatim>\<open>numeric(p, s)\<close> column.\<close>

definition cast_numeric ::
  "platform \<Rightarrow> string \<Rightarrow> string \<Rightarrow> nat \<Rightarrow> nat \<Rightarrow> string option \<Rightarrow> failure + rat option" where
  "cast_numeric pf t c p s x =
     (case nullif_trim x of
        None \<Rightarrow> Inr None
      | Some str \<Rightarrow>
          (case numeric_in pf str of
             None \<Rightarrow> Inl (InvalidNumeric str)
           | Some q \<Rightarrow> numeric_col t c p s (Some q)))"

definition bindS :: "failure + 'a \<Rightarrow> ('a \<Rightarrow> failure + 'b) \<Rightarrow> failure + 'b" where
  "bindS m f = (case m of Inl e \<Rightarrow> Inl e | Inr x \<Rightarrow> f x)"

text \<open>A \<^verbatim>\<open>not null\<close> column.\<close>

definition not_null :: "string \<Rightarrow> string \<Rightarrow> 'a option \<Rightarrow> failure + 'a" where
  "not_null t c v = (case v of None \<Rightarrow> Inl (NotNullViolation t c) | Some x \<Rightarrow> Inr x)"

subsection \<open>\<^verbatim>\<open>insert ... on conflict (legacy_code) do update\<close>\<close>

text \<open>
  One proposed row: when a row with the legacy code exists, its columns are updated by
  \<open>upd\<close> (old columns, proposed columns), otherwise the proposed row is inserted under a
  fresh id.
\<close>

definition upsert_entity ::
  "('c \<Rightarrow> 'c \<Rightarrow> 'c) \<Rightarrow> string \<Rightarrow> 'c \<Rightarrow> 'c entity list \<Rightarrow> uuid \<Rightarrow> 'c entity list \<times> uuid" where
  "upsert_entity upd k v tbl nid =
     (if list_ex (\<lambda>e. legacy_code e = Some k) tbl
      then (map (\<lambda>e. if legacy_code e = Some k then e\<lparr>cols := upd (cols e) v\<rparr> else e) tbl, nid)
      else (tbl @ [\<lparr>row_id = nid, legacy_code = Some k, cols = v\<rparr>], nid + 1))"

text \<open>
  The rows proposed by the \<^verbatim>\<open>select\<close>, in order. A row whose expressions fail fails the
  statement; so does a second proposed row with a legacy code already proposed in this
  statement (\<^verbatim>\<open>ON CONFLICT DO UPDATE command cannot affect row a second time\<close>).
\<close>

fun upsert_all ::
  "string \<Rightarrow> ('c \<Rightarrow> 'c \<Rightarrow> 'c) \<Rightarrow> (failure + string \<times> 'c) list \<Rightarrow> string list \<Rightarrow>
   'c entity list \<Rightarrow> uuid \<Rightarrow> failure + 'c entity list \<times> uuid" where
  "upsert_all t upd [] seen tbl nid = Inr (tbl, nid)"
| "upsert_all t upd (p # ps) seen tbl nid =
     (case p of
        Inl e \<Rightarrow> Inl e
      | Inr (k, v) \<Rightarrow>
          if k \<in> set seen then Inl (CardinalityViolation t)
          else case upsert_entity upd k v tbl nid of
                 (tbl', nid') \<Rightarrow> upsert_all t upd ps (k # seen) tbl' nid')"

subsection \<open>The five statements of \<^verbatim>\<open>migrateMasterData\<close>\<close>

text \<open>
  \<^verbatim>\<open>
  select trim(cod_grup), coalesce(nullif(trim(nome), ''), trim(cod_grup)) as name
  from stg_grupo where cod_grup is not null
  \<close>
\<close>

definition group_proposals :: "row list \<Rightarrow> (failure + string \<times> string) list" where
  "group_proposals rows =
     concat (map (\<lambda>r. case r ''cod_grup'' of
                        None \<Rightarrow> []
                      | Some c \<Rightarrow>
                          [Inr (sql_trim c,
                                case nullif_trim (r ''nome'') of None \<Rightarrow> sql_trim c | Some n \<Rightarrow> n)])
                 rows)"

text \<open>
  \<^verbatim>\<open>from stg_produto s left join product_group pg on pg.legacy_code = trim(s.cod_grup)
  where s.cod_prod is not null\<close>: one proposed row for each matching group, one with a
  \<^verbatim>\<open>null\<close> group when none matches.
\<close>

definition product_row ::
  "platform \<Rightarrow> row \<Rightarrow> string \<Rightarrow> uuid option \<Rightarrow> failure + string \<times> product_cols" where
  "product_row pf r c g =
     bindS (cast_numeric pf ''product'' ''min_stock'' 14 3 (r ''esto_min'')) (\<lambda>ms.
     bindS (cast_numeric pf ''product'' ''price_cash'' 14 2 (r ''avista'')) (\<lambda>pc.
     bindS (cast_numeric pf ''product'' ''price_base'' 14 2 (r ''preco_base'')) (\<lambda>pb.
     bindS (not_null ''product'' ''name'' (r ''nome_prod'')) (\<lambda>nm.
       Inr (sql_trim c,
            \<lparr>product_name = nm, barcode = nullif_trim (r ''cod_barra''), group_id = g,
             reference = nullif_trim (r ''referencia''), min_stock = ms, price_cash = pc,
             price_base = pb\<rparr>)))))"

definition product_proposals ::
  "platform \<Rightarrow> string entity list \<Rightarrow> row list \<Rightarrow> (failure + string \<times> product_cols) list" where
  "product_proposals pf groups rows =
     concat (map (\<lambda>r. case r ''cod_prod'' of
                        None \<Rightarrow> []
                      | Some c \<Rightarrow>
                          (case filter (\<lambda>pg. legacy_code pg \<noteq> None
                                              \<and> legacy_code pg = map_option sql_trim (r ''cod_grup''))
                                       groups of
                             [] \<Rightarrow> [product_row pf r c None]
                           | matches \<Rightarrow> map (\<lambda>pg. product_row pf r c (Some (row_id pg))) matches))
                 rows)"

text \<open>
  \<^verbatim>\<open>case when trim(s.status) = '' or s.status is null then 'active'
       else lower(trim(s.status)) end\<close>
\<close>

definition customer_proposals :: "row list \<Rightarrow> (failure + string \<times> customer_cols) list" where
  "customer_proposals rows =
     concat (map (\<lambda>r. case r ''codigo'' of
                        None \<Rightarrow> []
                      | Some c \<Rightarrow>
                          [bindS (not_null ''customer'' ''name'' (r ''nome'')) (\<lambda>nm.
                             Inr (sql_trim c,
                                  \<lparr>customer_name = nm, cpf = nullif_trim (r ''cpf''),
                                   address = nullif_trim (r ''endereco''),
                                   city = nullif_trim (r ''cidade''), uf = nullif_trim (r ''uf''),
                                   cep = nullif_trim (r ''cep''), phone = nullif_trim (r ''fone''),
                                   customer_status =
                                     (case nullif_trim (r ''status'') of
                                        None \<Rightarrow> ''active'' | Some st \<Rightarrow> sql_lower st),
                                   credit_limit = None,
                                   customer_notes = nullif_trim (r ''obs'')\<rparr>))])
                 rows)"

text \<open>\<^verbatim>\<open>select trim(codigo), nome from stg_vendedor where codigo is not null\<close>, and the same
  shape for \<^verbatim>\<open>stg_forma_pg\<close>.\<close>

definition named_proposals ::
  "string \<Rightarrow> string \<Rightarrow> string \<Rightarrow> row list \<Rightarrow> (failure + string \<times> string) list" where
  "named_proposals t code_column name_column rows =
     concat (map (\<lambda>r. case r code_column of
                        None \<Rightarrow> []
                      | Some c \<Rightarrow>
                          [bindS (not_null t ''name'' (r name_column)) (\<lambda>nm. Inr (sql_trim c, nm))])
                 rows)"

text \<open>
  The \<^verbatim>\<open>do update set\<close> lists: every column but the key; for \<^verbatim>\<open>customer\<close> every column but
  the key and \<^verbatim>\<open>credit_limit\<close>, which the statement does not mention.
\<close>

definition set_all :: "'c \<Rightarrow> 'c \<Rightarrow> 'c" where
  "set_all old new = new"

definition set_customer :: "customer_cols \<Rightarrow> customer_cols \<Rightarrow> customer_cols" where
  "set_customer old new = new\<lparr>credit_limit := credit_limit old\<rparr>"

definition upsert_product_group :: "unit io" where
  "upsert_product_group =
     (\<lambda>s. case upsert_all ''product_group'' set_all (group_proposals (staging s ''stg_grupo'')) []
                   (product_group s) (next_id s) of
             Inl e \<Rightarrow> (Inl e, s)
           | Inr (tbl, nid) \<Rightarrow>
               (Inr (), exec (InsertInto ''product_group'') (s\<lparr>product_group := tbl, next_id := nid\<rparr>)))"

definition upsert_product :: "platform \<Rightarrow> unit io" where
  "upsert_product pf =
     (\<lambda>s. case upsert_all ''product'' set_all
                   (product_proposals pf (product_group s) (staging s ''stg_produto'')) []
                   (product s) (next_id s) of
             Inl e \<Rightarrow> (Inl e, s)
           | Inr (tbl, nid) \<Rightarrow>
               (Inr (), exec (InsertInto ''product'') (s\<lparr>product := tbl, next_id := nid\<rparr>)))"

definition upsert_customer :: "unit io" where
  "upsert_customer =
     (\<lambda>s. case upsert_all ''customer'' set_customer (customer_proposals (staging s ''stg_clientes'')) []
                   (customer s) (next_id s) of
             Inl e \<Rightarrow> (Inl e, s)
           | Inr (tbl, nid) \<Rightarrow>
               (Inr (), exec (InsertInto ''customer'') (s\<lparr>customer := tbl, next_id := nid\<rparr>)))"

definition upsert_seller :: "unit io" where
  "upsert_seller =
     (\<lambda>s. case upsert_all ''seller'' set_all
                   (named_proposals ''seller'' ''codigo'' ''nome'' (staging s ''stg_vendedor'')) []
                   (seller s) (next_id s) of
             Inl e \<Rightarrow> (Inl e, s)
           | Inr (tbl, nid) \<Rightarrow>
               (Inr (), exec (InsertInto ''seller'') (s\<lparr>seller := tbl, next_id := nid\<rparr>)))"

definition upsert_payment_term :: "unit io" where
  "upsert_payment_term =
     (\<lambda>s. case upsert_all ''payment_term'' set_all
                   (named_proposals ''payment_term'' ''cod_fpg'' ''forma'' (staging s ''stg_forma_pg''))
                   [] (payment_term s) (next_id s) of
             Inl e \<Rightarrow> (Inl e, s)
           | Inr (tbl, nid) \<Rightarrow>
               (Inr (), exec (InsertInto ''payment_term'') (s\<lparr>payment_term := tbl, next_id := nid\<rparr>)))"

text \<open>\<^verbatim>\<open>Number((await query('select count(*) from t')).rows[0].count)\<close>\<close>

definition count_staging :: "string \<Rightarrow> nat io" where
  "count_staging t = (\<lambda>s. (Inr (length (staging s t)), s))"

text \<open>The \<^verbatim>\<open>overwrite\<close> parameter of \<^verbatim>\<open>migrateMasterData\<close> is not used by its body.\<close>

definition migrateMasterData :: "platform \<Rightarrow> bool \<Rightarrow> (string \<times> nat) list io" where
  "migrateMasterData pf overwrite =
     bindE upsert_product_group (\<lambda>_.
     bindE (count_staging ''stg_grupo'') (\<lambda>productGroups.
     bindE (upsert_product pf) (\<lambda>_.
     bindE (count_staging ''stg_produto'') (\<lambda>products.
     bindE upsert_customer (\<lambda>_.
     bindE (count_staging ''stg_clientes'') (\<lambda>customers.
     bindE upsert_seller (\<lambda>_.
     bindE (count_staging ''stg_vendedor'') (\<lambda>sellers.
     bindE upsert_payment_term (\<lambda>_.
     bindE (count_staging ''stg_forma_pg'') (\<lambda>paymentTerms.
       returnE [(''productGroups'', productGroups), (''products'', products),
                (''customers'', customers), (''sellers'', sellers),
                (''paymentTerms'', paymentTerms)]))))))))))"


section \<open>Transactions and histories\<close>

subsection \<open>\<^verbatim>\<open>normalizeString\<close>, \<^verbatim>\<open>normalizeDate\<close>, \<^verbatim>\<open>buildLegacyMap\<close>\<close>

text \<open>On a staged cell, which is text or \<^verbatim>\<open>null\<close>.\<close>

definition normalizeString :: "string option \<Rightarrow> string option" where
  "normalizeString v =
     (case v of None \<Rightarrow> None | Some x \<Rightarrow> if js_trim x = [] then None else Some (js_trim x))"

definition normalizeDate :: "platform \<Rightarrow> string option \<Rightarrow> int option" where
  "normalizeDate pf v =
     (case v of None \<Rightarrow> None | Some x \<Rightarrow> if js_trim x = [] then None else Date_parse pf x)"

text \<open>
  \<^verbatim>\<open>
  for (const row of rows) {
    if (row.legacy_code) map.set(String(row.legacy_code).trim(), row.id);
  }
  \<close>
\<close>

definition buildLegacyMap :: "'c entity list \<Rightarrow> (string \<rightharpoonup> uuid)" where
  "buildLegacyMap tbl =
     foldl (\<lambda>m e. case legacy_code e of
                    None \<Rightarrow> m
                  | Some c \<Rightarrow> if c = [] then m else m(js_trim c \<mapsto> row_id e))
           Map.empty tbl"

text \<open>\<^verbatim>\<open>row.cod_vend ? sellerMap.get(String(row.cod_vend).trim()) : null\<close>\<close>

definition lookup_code :: "(string \<rightharpoonup> uuid) \<Rightarrow> string option \<Rightarrow> uuid option" where
  "lookup_code m v = (case v of None \<Rightarrow> None | Some c \<Rightarrow> if c = [] then None else m (js_trim c))"

text \<open>\<^verbatim>\<open>row.pedido ? String(row.pedido).trim() : null\<close>, and \<open>None\<close> too where the loop
  continues on \<^verbatim>\<open>!sourceKey\<close>.\<close>

definition sourceKey_of :: "row \<Rightarrow> string option" where
  "sourceKey_of r =
     (case r ''pedido'' of
        None \<Rightarrow> None
      | Some p \<Rightarrow> if p = [] \<or> js_trim p = [] then None else Some (js_trim p))"

subsection \<open>\<^verbatim>\<open>migrateSales\<close>\<close>

text \<open>
  The two loops of \<^verbatim>\<open>migrateSales\<close> have the same body up to the source label, the status,
  the prefix of the mismatch message and the counters; \<open>kind\<close> selects them.
\<close>

datatype kind = Vendas | Pedidos

definition label :: "kind \<Rightarrow> string" where
  "label k = (case k of Vendas \<Rightarrow> ''VENDAS'' | Pedidos \<Rightarrow> ''PEDIDOS'')"

definition staging_of :: "kind \<Rightarrow> string" where
  "staging_of k = (case k of Vendas \<Rightarrow> ''stg_vendas'' | Pedidos \<Rightarrow> ''stg_pedidos'')"

definition mismatch_message :: "kind \<Rightarrow> string \<Rightarrow> string \<Rightarrow> string" where
  "mismatch_message k sourceKey code =
     (case k of Vendas \<Rightarrow> ''Sale '' | Pedidos \<Rightarrow> ''Order '')
     @ sourceKey @ '': product '' @ code @ '' not found''"

record lookups =
  sellerMap :: "string \<rightharpoonup> uuid"
  customerMap :: "string \<rightharpoonup> uuid"
  paymentTermMap :: "string \<rightharpoonup> uuid"
  productMap :: "string \<rightharpoonup> uuid"

text \<open>The parameters of the header statement; \<^verbatim>\<open>emission_date\<close> is \<^verbatim>\<open>not null\<close>.\<close>

definition sale_header :: "platform \<Rightarrow> lookups \<Rightarrow> row \<Rightarrow> string \<Rightarrow> failure + sale_cols" where
  "sale_header pf maps r sourceKey =
     bindS (numeric_col ''sale'' ''subtotal'' 14 2 (normalizeNumber (cell r ''sub_total''))) (\<lambda>st.
     bindS (numeric_col ''sale'' ''discount'' 14 2 (normalizeNumber (cell r ''desconto''))) (\<lambda>dc.
     bindS (numeric_col ''sale'' ''total'' 14 2 (normalizeNumber (cell r ''total_gera''))) (\<lambda>tt.
     bindS (not_null ''sale'' ''emission_date'' (normalizeDate pf (r ''emissao''))) (\<lambda>emission.
       Inr \<lparr>emission_date = emission, order_number = Some sourceKey,
            seller_id = lookup_code (sellerMap maps) (r ''cod_vend''),
            customer_id = lookup_code (customerMap maps) (r ''cod_cli''),
            payment_term_id = lookup_code (paymentTermMap maps) (r ''cod_fpg''),
            subtotal = st, discount = dc, sale_total = tt\<rparr>))))"

text \<open>
  \<^verbatim>\<open>insert into sale (...) values (...) on conflict (source, source_key) do update set ...
  returning id\<close>. A new sale has the default status \<^verbatim>\<open>completed\<close>, a new order \<^verbatim>\<open>draft\<close>;
  on conflict the order statement sets the status again, the sale statement does not.
\<close>

definition upsert_sale :: "kind \<Rightarrow> string \<Rightarrow> sale_cols \<Rightarrow> uuid io" where
  "upsert_sale k sourceKey v =
     (\<lambda>s. case find (\<lambda>r. source r = Some (label k) \<and> source_key r = Some sourceKey) (sale s) of
             Some found \<Rightarrow>
               (Inr (sale_id found),
                exec (InsertInto ''sale'')
                  (s\<lparr>sale :=
                       map (\<lambda>r. if source r = Some (label k) \<and> source_key r = Some sourceKey
                                 then r\<lparr>sale_values := v,
                                        sale_status := (case k of Vendas \<Rightarrow> sale_status r
                                                        | Pedidos \<Rightarrow> ''draft'')\<rparr>
                                 else r)
                           (sale s)\<rparr>))
           | None \<Rightarrow>
               (Inr (next_id s),
                exec (InsertInto ''sale'')
                  (s\<lparr>sale := sale s @
                         [\<lparr>sale_id = next_id s, sale_values = v,
                           sale_status = (case k of Vendas \<Rightarrow> ''completed'' | Pedidos \<Rightarrow> ''draft''),
                           source = Some (label k), source_key = Some sourceKey\<rparr>],
                      next_id := next_id s + 1\<rparr>)))"

definition delete_sale_items :: "uuid \<Rightarrow> unit io" where
  "delete_sale_items saleId =
     (\<lambda>s. (Inr (),
        exec (DeleteFrom ''sale_item'')
          (s\<lparr>sale_item := filter (\<lambda>i. item_sale_id i \<noteq> Some saleId) (sale_item s)\<rparr>)))"

text \<open>
  The row that \<^verbatim>\<open>insert into sale_item (...) values ($1, $2, $3, $4, $5)\<close> stores, up to its
  id, or the error of the statement.
\<close>

definition sale_item_values :: "uuid \<Rightarrow> uuid \<Rightarrow> sale_item_in \<Rightarrow> failure + (uuid \<Rightarrow> sale_item_row)" where
  "sale_item_values saleId productId item =
     bindS (numeric_col ''sale_item'' ''quantity'' 14 3 (Some (quantity item))) (\<lambda>q.
     bindS (numeric_col ''sale_item'' ''unit_price'' 14 2 (Some (price item))) (\<lambda>p.
     bindS (numeric_col ''sale_item'' ''total'' 14 2 (Some (total item))) (\<lambda>t.
     bindS (not_null ''sale_item'' ''quantity'' q) (\<lambda>q'.
       Inr (\<lambda>new_id. \<lparr>item_id = new_id, item_sale_id = Some saleId,
                       item_product_id = Some productId, item_quantity = q',
                       item_unit_price = p, item_total = t\<rparr>)))))"

definition insert_sale_item :: "uuid \<Rightarrow> uuid \<Rightarrow> sale_item_in \<Rightarrow> unit io" where
  "insert_sale_item saleId productId item =
     (\<lambda>s. case sale_item_values saleId productId item of
             Inl e \<Rightarrow> (Inl e, s)
           | Inr new \<Rightarrow>
               (Inr (),
                exec (InsertInto ''sale_item'')
                  (s\<lparr>sale_item := sale_item s @ [new (next_id s)], next_id := next_id s + 1\<rparr>)))"

text \<open>
  \<^verbatim>\<open>
  for (const item of items) {
    const productId = productMap.get(item.cod);
    if (!productId) {
      summary.mismatches.push(`Sale ${sourceKey}: product ${item.cod} not found`);
      continue;
    }
    await query(`insert into sale_item ...`, [...]);
    summary.saleItems += 1;
  }
  \<close>
  An exception leaves the summary as it is at that point; the summary is lost with it.
\<close>

definition count_item :: "kind \<Rightarrow> SaleSummary \<Rightarrow> SaleSummary" where
  "count_item k sm =
     (case k of Vendas \<Rightarrow> sm\<lparr>saleItems := saleItems sm + 1\<rparr>
      | Pedidos \<Rightarrow> sm\<lparr>orderItems := orderItems sm + 1\<rparr>)"

definition count_header :: "kind \<Rightarrow> SaleSummary \<Rightarrow> SaleSummary" where
  "count_header k sm =
     (case k of Vendas \<Rightarrow> sm\<lparr>sales := sales sm + 1\<rparr> | Pedidos \<Rightarrow> sm\<lparr>orders := orders sm + 1\<rparr>)"

fun migrate_items ::
  "kind \<Rightarrow> lookups \<Rightarrow> string \<Rightarrow> uuid \<Rightarrow> sale_item_in list \<Rightarrow> SaleSummary \<Rightarrow> SaleSummary io" where
  "migrate_items k maps sourceKey saleId [] sm = returnE sm"
| "migrate_items k maps sourceKey saleId (item # items) sm =
     (case productMap maps (cod item) of
        None \<Rightarrow>
          migrate_items k maps sourceKey saleId items
            (sm\<lparr>mismatches := mismatches sm @ [mismatch_message k sourceKey (cod item)]\<rparr>)
      | Some productId \<Rightarrow>
          bindE (insert_sale_item saleId productId item) (\<lambda>_.
            migrate_items k maps sourceKey saleId items (count_item k sm)))"

text \<open>The body of the loop over the staged rows.\<close>

definition migrate_row :: "platform \<Rightarrow> kind \<Rightarrow> lookups \<Rightarrow> row \<Rightarrow> SaleSummary \<Rightarrow> SaleSummary io" where
  "migrate_row pf k maps r sm =
     (case sourceKey_of r of
        None \<Rightarrow> returnE sm
      | Some sourceKey \<Rightarrow>
          (case sale_header pf maps r sourceKey of
             Inl e \<Rightarrow> throwE e
           | Inr v \<Rightarrow>
               bindE (upsert_sale k sourceKey v) (\<lambda>saleId.
               bindE (delete_sale_items saleId) (\<lambda>_.
               bindE (migrate_items k maps sourceKey saleId (extractSaleItems r) sm) (\<lambda>sm'.
                 returnE (count_header k sm'))))))"

fun migrate_rows :: "platform \<Rightarrow> kind \<Rightarrow> lookups \<Rightarrow> row list \<Rightarrow> SaleSummary \<Rightarrow> SaleSummary io" where
  "migrate_rows pf k maps [] sm = returnE sm"
| "migrate_rows pf k maps (r # rows) sm =
     bindE (migrate_row pf k maps r sm) (\<lambda>sm'. migrate_rows pf k maps rows sm')"

text \<open>
  \<^verbatim>\<open>delete from sale where source in ('VENDAS', 'PEDIDOS')\<close>; the items of a deleted sale go
  with it (\<^verbatim>\<open>on delete cascade\<close>).
\<close>

definition delete_migrated_sales :: "unit io" where
  "delete_migrated_sales =
     (\<lambda>s. (Inr (),
        exec (DeleteFrom ''sale'')
          (s\<lparr>sale := filter (\<lambda>r. source r \<notin> {Some ''VENDAS'', Some ''PEDIDOS''}) (sale s),
             sale_item :=
               filter (\<lambda>i. \<forall>r \<in> set (sale s).
                              source r \<in> {Some ''VENDAS'', Some ''PEDIDOS''} \<longrightarrow>
                              item_sale_id i \<noteq> Some (sale_id r))
                      (sale_item s)\<rparr>)))"

definition read_lookups :: "lookups io" where
  "read_lookups =
     (\<lambda>s. (Inr \<lparr>sellerMap = buildLegacyMap (seller s), customerMap = buildLegacyMap (customer s),
                paymentTermMap = buildLegacyMap (payment_term s),
                productMap = buildLegacyMap (product s)\<rparr>, s))"

definition select_staging :: "string \<Rightarrow> row list io" where
  "select_staging t = (\<lambda>s. (Inr (staging s t), s))"

definition migrateSales :: "platform \<Rightarrow> bool \<Rightarrow> SaleSummary io" where
  "migrateSales pf overwrite =
     bindE (if overwrite then delete_migrated_sales else returnE ()) (\<lambda>_.
     bindE read_lookups (\<lambda>maps.
     bindE (select_staging ''stg_vendas'') (\<lambda>sale_rows.
     bindE (migrate_rows pf Vendas maps sale_rows
              \<lparr>sales = 0, saleItems = 0, orders = 0, orderItems = 0, mismatches = []\<rparr>) (\<lambda>sm.
     bindE (select_staging ''stg_pedidos'') (\<lambda>order_rows.
       migrate_rows pf Pedidos maps order_rows sm)))))"

subsection \<open>\<^verbatim>\<open>migrateCustomerPayments\<close> and \<^verbatim>\<open>migrateStockMovements\<close>\<close>

text \<open>
  \<^verbatim>\<open>
  for (const row of rows) {
    if (!row.cod_cli) continue;
    const customer = await query('select id from customer where legacy_code = $1 limit 1',
                                 [String(row.cod_cli).trim()]);
    if (!customer.rows[0]) continue;
    await query(`insert into customer_payment (...) values ($1, $2, $3, $4, $5)`, [...]);
    count += 1;
  }
  \<close>
\<close>

definition customer_payment_values ::
  "platform \<Rightarrow> uuid \<Rightarrow> row \<Rightarrow> failure + (uuid \<Rightarrow> customer_payment_row)" where
  "customer_payment_values pf customerId r =
     bindS (numeric_col ''customer_payment'' ''document_value'' 14 2
             (normalizeNumber (cell r ''valor_doc''))) (\<lambda>dv.
     bindS (numeric_col ''customer_payment'' ''paid_value'' 14 2
             (normalizeNumber (cell r ''vlr_pago''))) (\<lambda>pv.
     bindS (numeric_col ''customer_payment'' ''remaining'' 14 2
             (normalizeNumber (cell r ''restante''))) (\<lambda>rm.
       Inr (\<lambda>new_id. \<lparr>payment_id = new_id, payment_customer_id = Some customerId,
                       payment_date = normalizeDate pf (r ''pagamento''), document_value = dv,
                       paid_value = pv, remaining = rm\<rparr>))))"

definition insert_customer_payment :: "platform \<Rightarrow> uuid \<Rightarrow> row \<Rightarrow> unit io" where
  "insert_customer_payment pf customerId r =
     (\<lambda>s. case customer_payment_values pf customerId r of
             Inl e \<Rightarrow> (Inl e, s)
           | Inr new \<Rightarrow>
               (Inr (),
                exec (InsertInto ''customer_payment'')
                  (s\<lparr>customer_payment := customer_payment s @ [new (next_id s)],
                     next_id := next_id s + 1\<rparr>)))"

fun payments_loop :: "platform \<Rightarrow> row list \<Rightarrow> nat \<Rightarrow> nat io" where
  "payments_loop pf [] n = returnE n"
| "payments_loop pf (r # rows) n =
     (case r ''cod_cli'' of
        None \<Rightarrow> payments_loop pf rows n
      | Some c \<Rightarrow>
          if c = [] then payments_loop pf rows n
          else
            (\<lambda>s. case find (\<lambda>e. legacy_code e = Some (js_trim c)) (customer s) of
                    None \<Rightarrow> payments_loop pf rows n s
                  | Some e \<Rightarrow>
                      bindE (insert_customer_payment pf (row_id e) r)
                        (\<lambda>_. payments_loop pf rows (n + 1)) s))"

definition migrateCustomerPayments :: "platform \<Rightarrow> nat io" where
  "migrateCustomerPayments pf =
     bindE (select_staging ''stg_pagament'') (\<lambda>rows. payments_loop pf rows 0)"

text \<open>
  \<^verbatim>\<open>stock_movement\<close>: \<^verbatim>\<open>date\<close>, \<^verbatim>\<open>type\<close> and \<^verbatim>\<open>quantity\<close> are \<^verbatim>\<open>not null\<close>;
  \<^verbatim>\<open>type char(1) check (type in ('E','S'))\<close>.
\<close>

definition stock_movement_values ::
  "platform \<Rightarrow> uuid \<Rightarrow> row \<Rightarrow> failure + (uuid \<Rightarrow> stock_movement_row)" where
  "stock_movement_values pf productId r =
     bindS (numeric_col ''stock_movement'' ''quantity'' 14 3
             (normalizeNumber (cell r ''qtde''))) (\<lambda>q.
     bindS (numeric_col ''stock_movement'' ''unit_value'' 14 2
             (normalizeNumber (cell r ''valor''))) (\<lambda>uv.
     bindS (numeric_col ''stock_movement'' ''total'' 14 2
             (normalizeNumber (cell r ''total''))) (\<lambda>tt.
     bindS (not_null ''stock_movement'' ''date'' (normalizeDate pf (r ''data''))) (\<lambda>d.
     bindS (not_null ''stock_movement'' ''type'' (normalizeString (r ''tip_mov''))) (\<lambda>ty.
     bindS (not_null ''stock_movement'' ''quantity'' q) (\<lambda>q'.
       if ty \<noteq> ''E'' \<and> ty \<noteq> ''S'' then Inl (CheckViolation ''stock_movement'' ''type'')
       else Inr (\<lambda>new_id. \<lparr>movement_id = new_id, movement_date = d, movement_type = ty,
                            movement_product_id = Some productId, movement_quantity = q',
                            unit_value = uv, movement_total = tt,
                            note_number = normalizeString (r ''nf'')\<rparr>)))))))"

definition insert_stock_movement :: "platform \<Rightarrow> uuid \<Rightarrow> row \<Rightarrow> unit io" where
  "insert_stock_movement pf productId r =
     (\<lambda>s. case stock_movement_values pf productId r of
             Inl e \<Rightarrow> (Inl e, s)
           | Inr new \<Rightarrow>
               (Inr (),
                exec (InsertInto ''stock_movement'')
                  (s\<lparr>stock_movement := stock_movement s @ [new (next_id s)],
                     next_id := next_id s + 1\<rparr>)))"

fun stock_loop :: "platform \<Rightarrow> (string \<rightharpoonup> uuid) \<Rightarrow> row list \<Rightarrow> nat \<Rightarrow> nat io" where
  "stock_loop pf pmap [] n = returnE n"
| "stock_loop pf pmap (r # rows) n =
     (case r ''cod_prod'' of
        None \<Rightarrow> stock_loop pf pmap rows n
      | Some c \<Rightarrow>
          if c = [] then stock_loop pf pmap rows n
          else
            (case pmap (js_trim c) of
               None \<Rightarrow> stock_loop pf pmap rows n
             | Some productId \<Rightarrow>
                 bindE (insert_stock_movement pf productId r)
                   (\<lambda>_. stock_loop pf pmap rows (n + 1))))"

definition migrateStockMovements :: "platform \<Rightarrow> nat io" where
  "migrateStockMovements pf =
     bindE (select_staging ''stg_mov_est'') (\<lambda>rows.
     bindE (\<lambda>s. (Inr (buildLegacyMap (product s)), s)) (\<lambda>pmap.
       stock_loop pf pmap rows 0))"

subsection \<open>The migration stages\<close>

text \<open>
  The four migration calls of \<^verbatim>\<open>runImport\<close>, in their order, without the log entries that
  \<^verbatim>\<open>runImport\<close> writes between them.
\<close>

definition migrate_all :: "platform \<Rightarrow> bool \<Rightarrow> unit io" where
  "migrate_all pf ow =
     bindE (migrateMasterData pf ow) (\<lambda>_.
     bindE (migrateSales pf ow) (\<lambda>_.
     bindE (migrateCustomerPayments pf) (\<lambda>_.
     bindE (migrateStockMovements pf) (\<lambda>_. returnE ()))))"


section \<open>The job\<close>

subsection \<open>\<^verbatim>\<open>createReconciliationReport\<close>\<close>

definition or_zero_count :: "nat option \<Rightarrow> nat" where
  "or_zero_count v = (case v of None \<Rightarrow> 0 | Some n \<Rightarrow> n)"

text \<open>\<^verbatim>\<open>select count(*) from sale_item si join sale s on s.id = si.sale_id where s.source = $1\<close>\<close>

definition count_items_of :: "string \<Rightarrow> state \<Rightarrow> nat" where
  "count_items_of src s =
     length (concat (map (\<lambda>i. filter (\<lambda>r. item_sale_id i = Some (sale_id r) \<and> source r = Some src)
                                       (sale s))
                         (sale_item s)))"

definition count_sales_of :: "string \<Rightarrow> state \<Rightarrow> nat" where
  "count_sales_of src s = length (filter (\<lambda>r. source r = Some src) (sale s))"

text \<open>\<^verbatim>\<open>mismatch.replace(/"/g, '""')\<close>\<close>

definition double_quotes :: "string \<Rightarrow> string" where
  "double_quotes x = concat (map (\<lambda>c. if c = CHR 0x22 then [CHR 0x22, CHR 0x22] else [c]) x)"

text \<open>
  The lines of the report; the file holds them joined by the line separator of the
  platform. \<^verbatim>\<open>path.join(sessionDir, name)\<close> is taken as the two joined by a slash.
\<close>

definition createReconciliationReport ::
  "string \<Rightarrow> (string \<times> nat) list \<Rightarrow> SaleSummary \<Rightarrow> nat \<Rightarrow> nat \<Rightarrow> string io" where
  "createReconciliationReport dir sm saleSummary payments stocks =
     (\<lambda>s. let reportPath = dir @ ''/reconciliation_'' @ show_nat (clock s) @ ''.csv'';
               ln = (\<lambda>metric legacy imported.
                      metric @ '','' @ show_nat legacy @ '','' @ imported @ '','');
               lines =
                 [''metric,legacy_value,imported_value,notes'',
                  ln ''product_groups'' (or_zero_count (map_of sm ''productGroups'')) [],
                  ln ''products'' (or_zero_count (map_of sm ''products''))
                     (show_nat (length (product s))),
                  ln ''customers'' (or_zero_count (map_of sm ''customers''))
                     (show_nat (length (customer s))),
                  ln ''sales'' (sales saleSummary) (show_nat (count_sales_of ''VENDAS'' s)),
                  ln ''sale_items'' (saleItems saleSummary) (show_nat (count_items_of ''VENDAS'' s)),
                  ln ''orders'' (orders saleSummary) (show_nat (count_sales_of ''PEDIDOS'' s)),
                  ln ''order_items'' (orderItems saleSummary)
                     (show_nat (count_items_of ''PEDIDOS'' s)),
                  ln ''customer_payments'' payments (show_nat (length (customer_payment s))),
                  ln ''stock_movements'' stocks (show_nat (length (stock_movement s)))]
                 @ map (\<lambda>mismatch. ''mismatch,,,'' @ [CHR 0x22] @ double_quotes mismatch @ [CHR 0x22])
                       (mismatches saleSummary)
           in (Inr reportPath, s\<lparr>written_files := written_files s @ [(reportPath, lines)]\<rparr>))"

subsection \<open>\<^verbatim>\<open>runImport\<close>\<close>

record job =
  job_id :: uuid
  sessionId :: string
  sessionDir :: string
  overwrite :: bool
  userId :: string

text \<open>
  \<^verbatim>\<open>
  for (const required of REQUIRED_FILES) {
    if (!filesMap.has(required)) {
      throw new Error(`Required legacy file ${required} missing after extraction`);
    }
  }
  \<close>
\<close>

fun check_required :: "(string \<rightharpoonup> string) \<Rightarrow> string list \<Rightarrow> unit io" where
  "check_required filesMap [] = returnE ()"
| "check_required filesMap (required # rest) =
     (if filesMap required = None then throwE (MissingRequiredFile required)
      else check_required filesMap rest)"

text \<open>The loop over \<^verbatim>\<open>STAGING_CONFIG\<close> that fills \<^verbatim>\<open>stagingSummary\<close>.\<close>

fun load_all ::
  "platform \<Rightarrow> uuid \<Rightarrow> StagingConfig list \<Rightarrow> (string \<rightharpoonup> string) \<Rightarrow> (string \<times> nat) list \<Rightarrow>
   (string \<times> nat) list io" where
  "load_all pf importId [] filesMap stagingSummary = returnE stagingSummary"
| "load_all pf importId (config # rest) filesMap stagingSummary =
     bindE (appendLog importId info
              (Msg (''Loading '' @ dbf_file config @ '' into staging table '' @ table config))) (\<lambda>_.
     bindE (loadDbfIntoStaging pf importId config filesMap) (\<lambda>n.
       load_all pf importId rest filesMap (stagingSummary @ [(table config, n)])))"

definition runImport :: "platform \<Rightarrow> job \<Rightarrow> unit io" where
  "runImport pf job =
     bindE (\<lambda>s. updateImportStatus (job_id job) running [Started_at (Some (clock s))] s) (\<lambda>_.
     bindE (appendLog (job_id job) info (Msg ''Preparing legacy files for import'')) (\<lambda>_.
     bindE (\<lambda>s. (prepareLegacyFiles pf (sessionDir job), s)) (\<lambda>filesMap.
     bindE (check_required filesMap REQUIRED_FILES) (\<lambda>_.
     bindE ensureSchema (\<lambda>_.
     bindE (if overwrite job
            then bindE (appendLog (job_id job) info (Msg ''Clearing existing data before import''))
                   (\<lambda>_. truncateCoreTables)
            else returnE ()) (\<lambda>_.
     bindE truncateStagingTables (\<lambda>_.
     bindE (load_all pf (job_id job) STAGING_CONFIG filesMap []) (\<lambda>stagingSummary.
     bindE (appendLog (job_id job) info
              (Msg ''Migrating master data (products, customers, sellers, payment terms)'')) (\<lambda>_.
     bindE (migrateMasterData pf (overwrite job)) (\<lambda>masterSummary.
     bindE (appendLog (job_id job) info (Msg ''Migrating sales and sale items'')) (\<lambda>_.
     bindE (migrateSales pf (overwrite job)) (\<lambda>salesSummary.
     bindE (appendLog (job_id job) info (Msg ''Migrating customer payments'')) (\<lambda>_.
     bindE (migrateCustomerPayments pf) (\<lambda>paymentsCount.
     bindE (appendLog (job_id job) info (Msg ''Migrating stock movements'')) (\<lambda>_.
     bindE (migrateStockMovements pf) (\<lambda>stockCount.
     bindE (appendLog (job_id job) info (Msg ''Generating reconciliation report'')) (\<lambda>_.
     bindE (createReconciliationReport (sessionDir job) masterSummary salesSummary paymentsCount
              stockCount) (\<lambda>reportPath.
     bindE (\<lambda>s. updateImportStatus (job_id job) completed
                  [Finished_at (clock s),
                   Summary \<lparr>staging_summary = stagingSummary, master_summary = masterSummary,
                            sales_summary = salesSummary, customerPayments = paymentsCount,
                            stockMovements = stockCount, reportPath = reportPath\<rparr>,
                   Report_path reportPath, Error_message None] s) (\<lambda>_.
       appendLog (job_id job) info (Msg ''Legacy data import completed successfully'')
     )))))))))))))))))))"

subsection \<open>The queue\<close>

text \<open>
  The module variables \<^verbatim>\<open>jobQueue\<close>, \<^verbatim>\<open>processing\<close> and \<^verbatim>\<open>initialized\<close>, with the database.
  The functions below run to their end before the next call starts: the interleaving of
  two asynchronous calls at an \<^verbatim>\<open>await\<close> is not modelled.
\<close>

record worker =
  db :: state
  jobQueue :: "job list"
  processing :: bool
  initialized :: bool

text \<open>
  \<^verbatim>\<open>
  try { await runImport(job); }
  catch (error) {
    const message = error instanceof Error ? error.message : String(error);
    await appendLog(job.id, 'error', message);
    await updateImportStatus(job.id, 'failed',
      { finished_at: new Date().toISOString(), error_message: message });
  }
  \<close>
\<close>

definition run_job :: "platform \<Rightarrow> job \<Rightarrow> state \<Rightarrow> state" where
  "run_job pf job s =
     (case runImport pf job s of
        (Inr _, s') \<Rightarrow> s'
      | (Inl e, s') \<Rightarrow>
          snd (bindE (appendLog (job_id job) error (Raised e))
                 (\<lambda>_ s. updateImportStatus (job_id job) failed
                          [Finished_at (clock s), Error_message (Some e)] s) s'))"

text \<open>
  \<^verbatim>\<open>
  if (processing) return;
  processing = true;
  while (jobQueue.length) { const job = jobQueue.shift(); ... }
  processing = false;
  \<close>
  \<^verbatim>\<open>runImport\<close> does not touch the queue, so the loop runs the jobs of the queue in order
  and leaves it empty.
\<close>

definition processQueue :: "platform \<Rightarrow> worker \<Rightarrow> worker" where
  "processQueue pf w =
     (if processing w then w
      else w\<lparr>db := foldl (\<lambda>s job. run_job pf job s) (db w) (jobQueue w),
             jobQueue := [], processing := False\<rparr>)"

definition queueLegacyImport :: "platform \<Rightarrow> job \<Rightarrow> worker \<Rightarrow> worker" where
  "queueLegacyImport pf job w = processQueue pf (w\<lparr>jobQueue := jobQueue w @ [job]\<rparr>)"

text \<open>
  The route \<^verbatim>\<open>POST /import/legacy\<close>, from the insert of the job row on
  (\<^verbatim>\<open>routes/admin-legacy-import.ts\<close>): the row is inserted as \<^verbatim>\<open>queued\<close> under a fresh id,
  then the job is queued. \<^verbatim>\<open>session_id\<close> is unique: a second row with the same session id
  fails the insert, and the request with it.
\<close>

definition submit :: "platform \<Rightarrow> string \<Rightarrow> string \<Rightarrow> bool \<Rightarrow> string \<Rightarrow> worker \<Rightarrow> worker" where
  "submit pf sid dir ow user w =
     (let s = db w
      in if list_ex (\<lambda>r. session_id r = sid) (system_legacy_import s) then w
         else queueLegacyImport pf
                \<lparr>job_id = next_id s, sessionId = sid, sessionDir = dir, overwrite = ow,
                 userId = user\<rparr>
                (w\<lparr>db := exec (InsertInto ''system_legacy_import'')
                             (s\<lparr>system_legacy_import :=
                                  system_legacy_import s @
                                  [\<lparr>imp_id = next_id s, session_id = sid, session_dir = dir,
                                    imp_overwrite = ow, imp_status = queued,
                                    created_at = clock s, created_by = user, started_at = None,
                                    finished_at = None, report_path = None, summary = None,
                                    error_message = None\<rparr>],
                                next_id := next_id s + 1\<rparr>)\<rparr>))"

text \<open>
  \<^verbatim>\<open>update system_legacy_import set status = 'queued', started_at = null
  where status = 'running'\<close>
\<close>

definition requeue_running :: "state \<Rightarrow> state" where
  "requeue_running s =
     exec (UpdateTable ''system_legacy_import'')
       (s\<lparr>system_legacy_import :=
             map (\<lambda>r. if imp_status r = running then r\<lparr>imp_status := queued, started_at := None\<rparr>
                       else r)
                 (system_legacy_import s),
          status_changes :=
             status_changes s @
             map (\<lambda>r. Recovery (imp_id r))
                 (filter (\<lambda>r. imp_status r = running) (system_legacy_import s))\<rparr>)"

text \<open>\<^verbatim>\<open>select ... from system_legacy_import where status = 'queued' order by created_at\<close>\<close>

definition select_queued :: "state \<Rightarrow> job list" where
  "select_queued s =
     map (\<lambda>r. \<lparr>job_id = imp_id r, sessionId = session_id r, sessionDir = session_dir r,
                overwrite = imp_overwrite r, userId = created_by r\<rparr>)
         (sort_key created_at (filter (\<lambda>r. imp_status r = queued) (system_legacy_import s)))"

definition initializeLegacyImportWorker :: "platform \<Rightarrow> worker \<Rightarrow> worker" where
  "initializeLegacyImportWorker pf w =
     (if initialized w then w
      else
        let s1 = requeue_running (snd (ensureSchema (db w)));
            w1 = w\<lparr>initialized := True, db := s1, jobQueue := jobQueue w @ select_queued s1\<rparr>
        in if jobQueue w1 \<noteq> [] then processQueue pf w1 else w1)"


section \<open>Example data\<close>

text \<open>A database with empty tables, as \<^verbatim>\<open>ensureSchema\<close> creates it.\<close>

definition fresh_db :: state where
  "fresh_db =
     \<lparr>staging = (\<lambda>_. []), product_group = [], product = [], customer = [], seller = [],
      payment_term = [], sale = [], sale_item = [], customer_payment = [], stock_movement = [],
      next_id = 0, system_legacy_import = [], system_legacy_import_log = [], executed = [],
      status_changes = [], clock = 0, written_files = []\<rparr>"

text \<open>An upload that holds the product table only.\<close>

definition partial_upload :: platform where
  "partial_upload =
     \<lparr>numeric_in = (\<lambda>x. isFinite (StringToNumber x)), Date_parse = (\<lambda>x. None),
      prepareLegacyFiles = (\<lambda>dir. Inr [''PRODUTO.DBF'' \<mapsto> dir @ ''/PRODUTO.DBF'']),
      DBFFile_open = (\<lambda>path. Inr [])\<rparr>"

text \<open>A database with one product group from an earlier import, and a queued job.\<close>

definition old_db :: state where
  "old_db =
     fresh_db\<lparr>product_group := [\<lparr>row_id = 0, legacy_code = Some ''G1'', cols = ''Tools''\<rparr>],
              next_id := 2,
              system_legacy_import :=
                [\<lparr>imp_id = 1, session_id = ''s1'', session_dir = ''/imports/s1'',
                  imp_overwrite = True, imp_status = queued, created_at = 0, created_by = ''u'',
                  started_at = None, finished_at = None, report_path = None, summary = None,
                  error_message = None\<rparr>]\<rparr>"

definition job1 :: job where
  "job1 = \<lparr>job_id = 1, sessionId = ''s1'', sessionDir = ''/imports/s1'', overwrite = True,
            userId = ''u''\<rparr>"

text \<open>A platform that reads one date, and a staged row with one slot in use.\<close>

definition dated_platform :: platform where
  "dated_platform =
     \<lparr>numeric_in = (\<lambda>x. isFinite (StringToNumber x)),
      Date_parse = (\<lambda>x. if x = ''2024-01-15'' then Some 1705276800000 else None),
      prepareLegacyFiles = (\<lambda>dir. Inr Map.empty), DBFFile_open = (\<lambda>path. Inr [])\<rparr>"

definition row77 :: row where
  "row77 = [''pedido'' \<mapsto> ''77'', ''emissao'' \<mapsto> ''2024-01-15'', ''cod1'' \<mapsto> ''P9'']"

definition no_lookups :: lookups where
  "no_lookups = \<lparr>sellerMap = Map.empty, customerMap = Map.empty, paymentTermMap = Map.empty,
                 productMap = Map.empty\<rparr>"

definition no_summary :: SaleSummary where
  "no_summary = \<lparr>sales = 0, saleItems = 0, orders = 0, orderItems = 0, mismatches = []\<rparr>"


section \<open>The error and state monad\<close>

lemma bindE_simps [simp]:
  "bindE (returnE x) f s = f x s"
  "bindE (throwE e) f s = (Inl e, s)"
  by (simp_all add: bindE_def returnE_def throwE_def)

lemma bindE_Inr: "m s = (Inr x, s') \<Longrightarrow> bindE m f s = f x s'"
  by (simp add: bindE_def)

lemma bindE_Inl: "m s = (Inl e, s') \<Longrightarrow> bindE m f s = (Inl e, s')"
  by (simp add: bindE_def)

section \<open>Properties of numeric normalization\<close>

lemma comma_not_ws: "\<not> is_ws (CHR '','')"
  by (simp add: is_ws_def)

lemma comma_not_digit: "\<not> is_digit (CHR '','')"
  by (simp add: is_digit_def)

lemma comma_not_hex: "\<not> is_hex_digit (CHR '','')"
  by (simp add: is_hex_digit_def)

lemma comma_not_octal: "\<not> is_octal_digit (CHR '','')"
  by (simp add: is_octal_digit_def)

lemma comma_not_binary: "\<not> is_binary_digit (CHR '','')"
  by (simp add: is_binary_digit_def)

lemma mem_dropWhile:
  assumes "c \<in> set s" "\<not> P c"
  shows "c \<in> set (dropWhile P s)"
  using assms by (induction s) auto

lemma comma_in_js_trim: "CHR '','' \<in> set s \<Longrightarrow> CHR '','' \<in> set (js_trim s)"
  unfolding js_trim_def
  by (simp add: mem_dropWhile comma_not_ws)

lemma all_digits_no_comma: "list_all is_digit r \<Longrightarrow> CHR '','' \<notin> set r"
  using comma_not_digit by (auto simp: list_all_iff)

lemma parse_exponent_comma: "CHR '','' \<in> set s \<Longrightarrow> parse_exponent s = None"
  using all_digits_no_comma[of s] all_digits_no_comma[of "tl s"]
  by (cases s) (auto simp: parse_exponent_def comma_not_digit)

lemma comma_in_drop_digits: "CHR '','' \<in> set s \<Longrightarrow> CHR '','' \<in> set (dropWhile is_digit s)"
  by (simp add: mem_dropWhile comma_not_digit)

text \<open>No numeric literal of the grammar contains a comma.\<close>

lemma parse_unsigned_decimal_comma:
  assumes "CHR '','' \<in> set s"
  shows "parse_unsigned_decimal s = None"
proof -
  have ne: "s \<noteq> ''Infinity''" using assms by auto
  define r1 where "r1 = dropWhile is_digit s"
  have c1: "CHR '','' \<in> set r1" using assms by (simp add: r1_def comma_in_drop_digits)
  define r2 where "r2 = (if r1 \<noteq> [] \<and> hd r1 = CHR ''.'' then dropWhile is_digit (tl r1) else r1)"
  have c2: "CHR '','' \<in> set r2"
  proof (cases "r1 \<noteq> [] \<and> hd r1 = CHR ''.''")
    case True
    then obtain t where t: "r1 = CHR ''.'' # t" by (cases r1) auto
    with c1 have "CHR '','' \<in> set t" by auto
    then show ?thesis using t by (simp add: r2_def comma_in_drop_digits)
  next
    case False
    then have "r2 = r1" unfolding r2_def by (simp only: if_False)
    then show ?thesis using c1 by simp
  qed
  then have ne2: "r2 \<noteq> []" by auto
  have c3: "parse_exponent (tl r2) = None" if h: "hd r2 = CHR ''e'' \<or> hd r2 = CHR ''E''"
  proof -
    obtain a t where t: "r2 = a # t" using ne2 by (cases r2) auto
    with h c2 have "CHR '','' \<in> set t" by auto
    then show ?thesis using t by (simp add: parse_exponent_comma)
  qed
  define ip where "ip = takeWhile is_digit s"
  define fp where "fp = (if r1 \<noteq> [] \<and> hd r1 = CHR ''.'' then takeWhile is_digit (tl r1) else [])"
  have eq: "parse_unsigned_decimal s =
     (if ip = [] \<and> fp = [] then None
      else if r2 = [] then Some (round_mv (decimal_mv ip fp 0))
      else if hd r2 = CHR ''e'' \<or> hd r2 = CHR ''E'' then
        (case parse_exponent (tl r2) of
           None \<Rightarrow> None
         | Some e \<Rightarrow> Some (round_mv (decimal_mv ip fp e)))
      else None)"
    unfolding parse_unsigned_decimal_def Let_def ip_def fp_def r2_def r1_def
    by (simp only: ne if_False)
  show ?thesis
  proof (cases "hd r2 = CHR ''e'' \<or> hd r2 = CHR ''E''")
    case True
    then show ?thesis unfolding eq using ne2 c3 by simp
  next
    case False
    then show ?thesis unfolding eq using ne2 by simp
  qed
qed

lemma parse_decimal_comma: "CHR '','' \<in> set s \<Longrightarrow> parse_decimal s = None"
  by (cases s) (auto simp: parse_decimal_def parse_unsigned_decimal_comma)

lemma parse_nondecimal_comma:
  assumes "CHR '','' \<in> set s"
  shows "parse_nondecimal s = None"
proof (cases s)
  case Nil
  then show ?thesis by (simp add: parse_nondecimal_def)
next
  case (Cons z t)
  show ?thesis
  proof (cases t)
    case Nil
    then show ?thesis using \<open>s = z # t\<close> by (simp add: parse_nondecimal_def)
  next
    case (Cons x ds)
    show ?thesis
    proof (cases "z = CHR ''0'' \<and> x \<in> set ''xXoObB''")
      case True
      with assms \<open>s = z # t\<close> Cons have "CHR '','' \<in> set ds" by auto
      then have "\<not> list_all is_hex_digit ds" "\<not> list_all is_octal_digit ds"
        "\<not> list_all is_binary_digit ds"
        using comma_not_hex comma_not_octal comma_not_binary by (auto simp: list_all_iff)
      then show ?thesis using \<open>s = z # t\<close> Cons by (simp add: parse_nondecimal_def)
    next
      case False
      then show ?thesis using \<open>s = z # t\<close> Cons by (auto simp: parse_nondecimal_def)
    qed
  qed
qed

lemma StringToNumber_comma: "CHR '','' \<in> set s \<Longrightarrow> StringToNumber s = NaN"
  using comma_in_js_trim[of s]
  by (auto simp: StringToNumber_def Let_def parse_decimal_comma parse_nondecimal_comma)

lemma replace_first_split:
  "p \<notin> set a \<Longrightarrow> replace_first p r (a @ p # b) = a @ r # b"
  by (induction a) auto

lemma replace_first_absent: "p \<notin> set s \<Longrightarrow> replace_first p r s = s"
  by (induction s) auto

lemma replace_first_second_stays:
  "p \<in> set b \<Longrightarrow> p \<in> set (replace_first p r (a @ p # b))"
  by (induction a) auto

lemmas number_defs =
  StringToNumber_def js_trim_def is_ws_def parse_nondecimal_def parse_decimal_def
  parse_unsigned_decimal_def parse_exponent_def is_digit_def round_mv_def decimal_mv_def
  exp_up.simps exp_down.simps round_half_even_def
  digits_val_def digit_val_def isFinite_def Let_def

text \<open>
  C10. \<^verbatim>\<open>normalizeNumber\<close> on a string replaces the first comma only, and then parses:
  \<^item> the comma-decimal string \<open>12,5\<close> yields \<open>12.5\<close>;
  \<^item> a string without a comma is parsed as it is;
  \<^item> a string that is not a numeric literal after the substitution yields \<^verbatim>\<open>null\<close>, in
    particular every string with two commas, and \<open>1.234,56\<close> with its thousands separator.
  The function is total: it returns a number or \<^verbatim>\<open>null\<close> and never raises.
\<close>

theorem normalizeNumber_first_comma_only:
  "(CHR '','' \<notin> set a \<longrightarrow>
      replace_first (CHR '','') (CHR ''.'') (a @ CHR '','' # b) = a @ CHR ''.'' # b)
   \<and> normalizeNumber (VStr ''12,5'') = Some (25 / 2)
   \<and> (CHR '','' \<notin> set s \<longrightarrow>
        normalizeNumber (VStr s) = (if s = [] then None else isFinite (StringToNumber s)))
   \<and> (StringToNumber (replace_first (CHR '','') (CHR ''.'') s) = NaN \<longrightarrow>
        normalizeNumber (VStr s) = None)
   \<and> (CHR '','' \<in> set b \<longrightarrow> normalizeNumber (VStr (a @ CHR '','' # b)) = None)
   \<and> normalizeNumber (VStr ''1.234,56'') = None"
proof (intro conjI impI)
  show "replace_first (CHR '','') (CHR ''.'') (a @ CHR '','' # b) = a @ CHR ''.'' # b"
    if "CHR '','' \<notin> set a"
    using that by (rule replace_first_split)
  show "normalizeNumber (VStr ''12,5'') = Some (25 / 2)"
    by (simp add: number_defs)
  show "normalizeNumber (VStr s) = (if s = [] then None else isFinite (StringToNumber s))"
    if "CHR '','' \<notin> set s"
    using that by (simp add: replace_first_absent)
  show "normalizeNumber (VStr s) = None"
    if "StringToNumber (replace_first (CHR '','') (CHR ''.'') s) = NaN"
    using that by (simp add: isFinite_def)
  show "normalizeNumber (VStr (a @ CHR '','' # b)) = None" if "CHR '','' \<in> set b"
  proof -
    have "CHR '','' \<in> set (replace_first (CHR '','') (CHR ''.'') (a @ CHR '','' # b))"
      using that by (rule replace_first_second_stays)
    then have "StringToNumber (replace_first (CHR '','') (CHR ''.'') (a @ CHR '','' # b)) = NaN"
      by (rule StringToNumber_comma)
    then show ?thesis by (simp add: isFinite_def)
  qed
  show "normalizeNumber (VStr ''1.234,56'') = None"
    by (simp add: number_defs)
qed

theorem normalizeNumber_first_comma_only_witness:
  "replace_first (CHR '','') (CHR ''.'') ''1,2,3'' = ''1.2,3''
   \<and> normalizeNumber (VStr ''1,2,3'') = None
   \<and> normalizeNumber (VStr ''12.5'') = Some (25 / 2)
   \<and> normalizeNumber (VStr ''abc'') = None"
proof -
  have n: "StringToNumber ''12.5'' = Finite (25 / 2)" "StringToNumber ''abc'' = NaN"
    by (simp_all add: number_defs)
  show ?thesis
    using normalizeNumber_first_comma_only [of "''1''" "''2,3''" "''12.5''"]
      normalizeNumber_first_comma_only [of "''1''" "''2,3''" "''abc''"] n
    by (simp add: isFinite_def)
qed

section \<open>Properties of slot expansion\<close>

lemma show_nat_digits:
  "show_nat (Suc 0) = ''1''" "show_nat 1 = ''1''" "show_nat 2 = ''2''" "show_nat 3 = ''3''" "show_nat 4 = ''4''"
  "show_nat 5 = ''5''" "show_nat 6 = ''6''" "show_nat 7 = ''7''"
  by (simp_all add: show_nat.simps)

lemma upt_1_8: "[Suc 0..<8] = [1, 2, 3, 4, 5, 6, 7::nat]"
  by (simp add: upt_rec)
lemma upt_1_3: "[Suc 0..<3] = [1, 2::nat]"
  by (simp add: upt_rec)

text \<open>The loop from \<open>index\<close> on appends the items of the filled slots, in slot order.\<close>

lemma extract_loop_closed:
  "index \<le> 8 \<Longrightarrow> extract_loop r index items =
     items @ map (\<lambda>i. \<lparr>cod = js_trim (the (r (''cod'' @ show_nat i))),
                       quantity = or_zero (normalizeNumber (cell r (''qtde'' @ show_nat i))),
                       price = or_zero (normalizeNumber (cell r (''vlr'' @ show_nat i))),
                       total = or_zero (normalizeNumber (cell r (''total'' @ show_nat i)))\<rparr>)
               (filter (\<lambda>i. r (''cod'' @ show_nat i) \<notin> {None, Some []}) [index..<8])"
proof (induction r index items rule: extract_loop.induct)
  case (1 r index items)
  show ?case
  proof (cases "index \<le> 7")
    case True
    then have u: "[index..<8] = index # [index + 1..<8]" by (simp add: upt_conv_Cons)
    show ?thesis
      using True 1
      by (subst extract_loop.simps) (auto simp: u split: option.splits)
  next
    case False
    with 1(4) have "index = 8" by simp
    then show ?thesis by (subst extract_loop.simps) simp
  qed
qed


lemma filter_upt_nth:
  assumes "1 \<le> i" "i \<le> (7::nat)" "P i"
  shows "length (filter P [1..<i]) < length (filter P [1..<8])
         \<and> filter P [1..<8] ! length (filter P [1..<i]) = i"
proof -
  have "[1..<i + (8 - i)] = [1..<i] @ [i..<i + (8 - i)]"
    using assms(1) by (intro upt_add_eq_append) simp
  then have "[1..<8] = [1..<i] @ [i..<8]"
    using assms(2) by simp
  moreover have "[i..<8] = i # [Suc i..<8]"
    using assms(2) by (simp add: upt_conv_Cons)
  ultimately have "[1..<8] = [1..<i] @ i # [Suc i..<8]"
    by simp
  then have "filter P [1..<8] = filter P [1..<i] @ i # filter P [Suc i..<8]"
    using assms(3) by simp
  then show ?thesis by (simp add: nth_append)
qed

lemma or_zero_normalizeNumber_cases:
  assumes "r k = None \<or> (\<exists>s. r k = Some s \<and>
             (js_trim s = [] \<or> StringToNumber (replace_first (CHR '','') (CHR ''.'') s) = NaN))"
  shows "or_zero (normalizeNumber (cell r k)) = 0"
proof (cases "r k")
  case None
  then show ?thesis by (simp add: cell_def or_zero_def)
next
  case (Some s)
  with assms consider "js_trim s = []"
    | "StringToNumber (replace_first (CHR '','') (CHR ''.'') s) = NaN" by auto
  then show ?thesis
  proof cases
    case 1
    then have "CHR '','' \<notin> set s" using comma_in_js_trim[of s] by auto
    then have "replace_first (CHR '','') (CHR ''.'') s = s" by (rule replace_first_absent)
    moreover have "StringToNumber s = Finite 0" using 1 by (simp add: StringToNumber_def)
    ultimately show ?thesis using Some by (simp add: cell_def or_zero_def isFinite_def)
  next
    case 2
    then show ?thesis using Some by (simp add: cell_def or_zero_def isFinite_def)
  qed
qed



text \<open>
  C9. For a slot \<open>i\<close> with a non-empty product code, the item emitted for it (the one at the
  position given by the number of filled slots before \<open>i\<close>) carries \<open>0\<close> in every numeric
  field whose column is \<^verbatim>\<open>null\<close>, blank, or not a numeric literal. The fields of an item
  are numbers, never \<^verbatim>\<open>null\<close>.
\<close>

theorem extractSaleItems_zero_default:
  assumes "1 \<le> i" and "i \<le> 7"
    and "r (''cod'' @ show_nat i) = Some code" and "code \<noteq> []"
    and "k = length (filter (\<lambda>j. r (''cod'' @ show_nat j) \<notin> {None, Some []}) [1..<i])"
    and "\<And>c. unreadable c \<longleftrightarrow>
           r (c @ show_nat i) = None \<or>
           (\<exists>s. r (c @ show_nat i) = Some s \<and>
             (js_trim s = [] \<or> StringToNumber (replace_first (CHR '','') (CHR ''.'') s) = NaN))"
  shows "k < length (extractSaleItems r)
     \<and> cod (extractSaleItems r ! k) = js_trim code
     \<and> (unreadable ''qtde'' \<longrightarrow> quantity (extractSaleItems r ! k) = 0)
     \<and> (unreadable ''vlr'' \<longrightarrow> price (extractSaleItems r ! k) = 0)
     \<and> (unreadable ''total'' \<longrightarrow> total (extractSaleItems r ! k) = 0)"
proof -
  let ?P = "\<lambda>j. r (''cod'' @ show_nat j) \<notin> {None, Some []}"
  have P: "?P i" using assms(3,4) by simp
  have nth: "k < length (filter ?P [1..<8])" "filter ?P [1..<8] ! k = i"
    using filter_upt_nth[of i ?P, OF assms(1,2) P] assms(5) by simp_all
  have closed: "extractSaleItems r =
     map (\<lambda>i. \<lparr>cod = js_trim (the (r (''cod'' @ show_nat i))),
               quantity = or_zero (normalizeNumber (cell r (''qtde'' @ show_nat i))),
               price = or_zero (normalizeNumber (cell r (''vlr'' @ show_nat i))),
               total = or_zero (normalizeNumber (cell r (''total'' @ show_nat i)))\<rparr>)
         (filter ?P [1..<8])"
    unfolding extractSaleItems_def using extract_loop_closed[of 1 r "[]"] by simp
  have len: "k < length (extractSaleItems r)" using nth(1) by (simp add: closed)
  have item: "extractSaleItems r ! k =
      \<lparr>cod = js_trim code,
       quantity = or_zero (normalizeNumber (cell r (''qtde'' @ show_nat i))),
       price = or_zero (normalizeNumber (cell r (''vlr'' @ show_nat i))),
       total = or_zero (normalizeNumber (cell r (''total'' @ show_nat i)))\<rparr>"
    using nth assms(3) by (simp add: closed del: insert_iff)
  have z: "or_zero (normalizeNumber (cell r (c @ show_nat i))) = 0" if "unreadable c" for c
    using that assms(6)[of c] or_zero_normalizeNumber_cases[of r "c @ show_nat i"] by blast
  show ?thesis
    using len z[of "''qtde''"] z[of "''vlr''"] z[of "''total''"] by (simp add: item)
qed

theorem extractSaleItems_zero_default_witness:
  "cod (extractSaleItems [''cod1'' \<mapsto> ''P1'', ''qtde1'' \<mapsto> ''2'',
                     ''cod3'' \<mapsto> ''P3'', ''qtde3'' \<mapsto> ''n/a'', ''vlr3'' \<mapsto> ''  ''] ! 1) = ''P3''
   \<and> quantity (extractSaleItems [''cod1'' \<mapsto> ''P1'', ''qtde1'' \<mapsto> ''2'',
                     ''cod3'' \<mapsto> ''P3'', ''qtde3'' \<mapsto> ''n/a'', ''vlr3'' \<mapsto> ''  ''] ! 1) = 0
   \<and> price (extractSaleItems [''cod1'' \<mapsto> ''P1'', ''qtde1'' \<mapsto> ''2'',
                     ''cod3'' \<mapsto> ''P3'', ''qtde3'' \<mapsto> ''n/a'', ''vlr3'' \<mapsto> ''  ''] ! 1) = 0
   \<and> total (extractSaleItems [''cod1'' \<mapsto> ''P1'', ''qtde1'' \<mapsto> ''2'',
                     ''cod3'' \<mapsto> ''P3'', ''qtde3'' \<mapsto> ''n/a'', ''vlr3'' \<mapsto> ''  ''] ! 1) = 0"
proof -
  let ?r = "[''cod1'' \<mapsto> ''P1'', ''qtde1'' \<mapsto> ''2'',
             ''cod3'' \<mapsto> ''P3'', ''qtde3'' \<mapsto> ''n/a'', ''vlr3'' \<mapsto> ''  '']"
  let ?u = "\<lambda>c. ?r (c @ show_nat 3) = None \<or>
           (\<exists>s. ?r (c @ show_nat 3) = Some s \<and>
             (js_trim s = [] \<or> StringToNumber (replace_first (CHR '','') (CHR ''.'') s) = NaN))"
  have k: "(1::nat) = length (filter (\<lambda>j. ?r (''cod'' @ show_nat j) \<notin> {None, Some []}) [1..<3])"
    by (simp add: upt_1_3 show_nat_digits)
  have u: "?u ''qtde''" "?u ''vlr''" "?u ''total''"
    by (simp_all add: show_nat_digits number_defs)
  show ?thesis
    using extractSaleItems_zero_default[of 3 ?r "''P3''" 1 ?u, OF _ _ _ _ k] u
    by (simp add: show_nat_digits js_trim_def is_ws_def)
qed

section \<open>Staging and the order of the run\<close>

text \<open>
  C8. When the file of a staging source is absent from the file map, \<^verbatim>\<open>loadDbfIntoStaging\<close>
  appends one log entry of level \<^verbatim>\<open>warn\<close>, executes only that insert into the log (no
  creation, truncation or insert on the staging table, whose rows stay as they are),
  and returns the count 0 without raising; the loop over the sources goes on with the
  next source.
\<close>

theorem loadDbfIntoStaging_absent_skips:
  assumes "files (dbf_file config) = None"
  shows "loadDbfIntoStaging pf importId config files s =
       (Inr 0,
        s\<lparr>system_legacy_import_log :=
            system_legacy_import_log s @
            [\<lparr>import_id = importId, log_level = warn,
              message = Msg (''Optional file '' @ dbf_file config @ '' not provided; skipping.'')\<rparr>],
          executed := executed s @ [InsertInto ''system_legacy_import_log'']\<rparr>)
     \<and> staging (snd (loadDbfIntoStaging pf importId config files s)) = staging s
     \<and> load_all pf importId (config # rest) files acc s =
         load_all pf importId rest files (acc @ [(table config, 0)])
           (snd (loadDbfIntoStaging pf importId config files
              (snd (appendLog importId info
                 (Msg (''Loading '' @ dbf_file config @ '' into staging table '' @ table config)) s))))"
  using assms
  by (simp add: loadDbfIntoStaging_def appendLog_def exec_def bindE_def returnE_def)

theorem loadDbfIntoStaging_absent_skips_witness:
  "fst (loadDbfIntoStaging partial_upload 1
          \<lparr>dbf_file = ''FORMA_PG.DBF'', table = ''stg_forma_pg'',
           columns = [(''cod_fpg'', ''COD_FPG''), (''forma'', ''FORMA'')]\<rparr>
          [''PRODUTO.DBF'' \<mapsto> ''/imports/s1/PRODUTO.DBF''] old_db) = Inr 0
   \<and> map log_level (system_legacy_import_log
        (snd (loadDbfIntoStaging partial_upload 1
          \<lparr>dbf_file = ''FORMA_PG.DBF'', table = ''stg_forma_pg'',
           columns = [(''cod_fpg'', ''COD_FPG''), (''forma'', ''FORMA'')]\<rparr>
          [''PRODUTO.DBF'' \<mapsto> ''/imports/s1/PRODUTO.DBF''] old_db))) = [warn]
   \<and> executed
        (snd (loadDbfIntoStaging partial_upload 1
          \<lparr>dbf_file = ''FORMA_PG.DBF'', table = ''stg_forma_pg'',
           columns = [(''cod_fpg'', ''COD_FPG''), (''forma'', ''FORMA'')]\<rparr>
          [''PRODUTO.DBF'' \<mapsto> ''/imports/s1/PRODUTO.DBF''] old_db))
       = [InsertInto ''system_legacy_import_log'']"
  using loadDbfIntoStaging_absent_skips
    [of "[''PRODUTO.DBF'' \<mapsto> ''/imports/s1/PRODUTO.DBF'']"
        "\<lparr>dbf_file = ''FORMA_PG.DBF'', table = ''stg_forma_pg'',
          columns = [(''cod_fpg'', ''COD_FPG''), (''forma'', ''FORMA'')]\<rparr>"
        partial_upload 1 old_db "[]" "[]"]
  by (simp add: old_db_def fresh_db_def)


lemma check_required_missing:
  "f \<in> set fs \<Longrightarrow> filesMap f = None \<Longrightarrow>
   \<exists>g \<in> set fs. filesMap g = None \<and> check_required filesMap fs s = (Inl (MissingRequiredFile g), s)"
  by (induction fs) (auto simp: throwE_def)

text \<open>
  C1. When a required file is absent from the normalized file map, \<^verbatim>\<open>runImport\<close> raises
  the error that names the first missing required file, whatever the overwrite flag of
  the job. Up to that point it has executed the status update and one insert into the
  log and nothing else: no truncation, and the staging tables and the nine core tables
  are as they were.
\<close>

theorem runImport_fail_before_destroy:
  assumes "prepareLegacyFiles pf (sessionDir job) = Inr filesMap"
    and "required \<in> set REQUIRED_FILES" and "filesMap required = None"
  shows "\<exists>f \<in> set REQUIRED_FILES. \<exists>s'.
       filesMap f = None
     \<and> runImport pf job s = (Inl (MissingRequiredFile f), s')
     \<and> executed s' = executed s @ [UpdateTable ''system_legacy_import'',
                                   InsertInto ''system_legacy_import_log'']
     \<and> (\<forall>t. Truncate t \<in> set (executed s') \<longrightarrow> Truncate t \<in> set (executed s))
     \<and> staging s' = staging s
     \<and> product_group s' = product_group s \<and> product s' = product s
     \<and> customer s' = customer s \<and> seller s' = seller s \<and> payment_term s' = payment_term s
     \<and> sale s' = sale s \<and> sale_item s' = sale_item s
     \<and> customer_payment s' = customer_payment s \<and> stock_movement s' = stock_movement s"
proof -
  obtain s1 where 1: "updateImportStatus (job_id job) running [Started_at (Some (clock s))] s = (Inr (), s1)"
    by (simp add: updateImportStatus_def)
  obtain s2 where 2: "appendLog (job_id job) info (Msg ''Preparing legacy files for import'') s1 = (Inr (), s2)"
    by (simp add: appendLog_def)
  obtain f where f: "f \<in> set REQUIRED_FILES" "filesMap f = None"
    "check_required filesMap REQUIRED_FILES s2 = (Inl (MissingRequiredFile f), s2)"
    using check_required_missing[of required REQUIRED_FILES filesMap s2] assms(2,3) by blast
  have run: "runImport pf job s = (Inl (MissingRequiredFile f), s2)"
    unfolding runImport_def bindE_def
    by (simp add: 1 2 f(3) assms(1))
  have s2: "s2 = exec (InsertInto ''system_legacy_import_log'')
      ((exec (UpdateTable ''system_legacy_import'')
        (s\<lparr>system_legacy_import :=
             map (\<lambda>r. if imp_id r = job_id job
                       then foldl set_field (r\<lparr>imp_status := running\<rparr>) [Started_at (Some (clock s))]
                       else r) (system_legacy_import s),
           status_changes := status_changes s @
             map (\<lambda>r. Update (job_id job) (imp_status r) running)
                 (filter (\<lambda>r. imp_id r = job_id job) (system_legacy_import s))\<rparr>))
       \<lparr>system_legacy_import_log :=
          system_legacy_import_log s @
          [\<lparr>import_id = job_id job, log_level = info,
            message = Msg ''Preparing legacy files for import''\<rparr>]\<rparr>)"
    using 1 2 by (auto simp: updateImportStatus_def appendLog_def exec_def)
  show ?thesis
    apply (rule bexI[OF _ f(1)])
    apply (rule exI[of _ s2])
    apply (simp add: run f(2))
    apply (simp add: s2 exec_def)
    done
qed

theorem runImport_fail_before_destroy_witness:
  "overwrite job1
   \<and> (\<exists>f \<in> set REQUIRED_FILES. \<exists>s'.
         runImport partial_upload job1 old_db = (Inl (MissingRequiredFile f), s')
       \<and> executed s' = [UpdateTable ''system_legacy_import'', InsertInto ''system_legacy_import_log'']
       \<and> product_group s' = [\<lparr>row_id = 0, legacy_code = Some ''G1'', cols = ''Tools''\<rparr>])"
proof -
  have p: "prepareLegacyFiles partial_upload (sessionDir job1)
           = Inr [''PRODUTO.DBF'' \<mapsto> sessionDir job1 @ ''/PRODUTO.DBF'']"
    by (simp add: partial_upload_def)
  have r: "''GRUPO.DBF'' \<in> set REQUIRED_FILES"
    by (simp add: REQUIRED_FILES_def)
  have m: "[''PRODUTO.DBF'' \<mapsto> sessionDir job1 @ ''/PRODUTO.DBF''] ''GRUPO.DBF'' = None"
    by simp
  have e: "executed old_db = []" "product_group old_db = [\<lparr>row_id = 0, legacy_code = Some ''G1'', cols = ''Tools''\<rparr>]"
    by (simp_all add: old_db_def fresh_db_def)
  show ?thesis
    using runImport_fail_before_destroy [OF p r m, of old_db] e
    by (auto simp: job1_def)
qed


section \<open>Unresolved product codes\<close>

lemma sale_item_values_cases:
  "(\<exists>new. sale_item_values saleId productId item = Inr new
      \<and> (\<forall>i. item_sale_id (new i) = Some saleId \<and> item_product_id (new i) = Some productId))
   \<or> (\<exists>c. sale_item_values saleId productId item = Inl (NumericOverflow ''sale_item'' c))"
  by (simp add: sale_item_values_def bindS_def numeric_col_def not_null_def)

lemma insert_sale_item_cases:
  "insert_sale_item saleId productId item s = (res, s') \<Longrightarrow>
     (res = Inr () \<and> (\<exists>new. s' = exec (InsertInto ''sale_item'')
            (s\<lparr>sale_item := sale_item s @ [new], next_id := next_id s + 1\<rparr>)
          \<and> item_sale_id new = Some saleId \<and> item_product_id new = Some productId))
   \<or> ((\<exists>c. res = Inl (NumericOverflow ''sale_item'' c)) \<and> s' = s)"
  using sale_item_values_cases[of saleId productId item]
  by (auto simp: insert_sale_item_def)

lemma migrate_items_unresolved:
  "\<forall>it \<in> set items. productMap maps (cod it) = None \<Longrightarrow>
   migrate_items k maps key saleId items sm s =
     (Inr (sm\<lparr>mismatches := mismatches sm @ map (\<lambda>it. mismatch_message k key (cod it)) items\<rparr>), s)"
  by (induction items arbitrary: sm) (auto simp: returnE_def)

lemma mismatches_count_item [simp]:
  "mismatches (count_item k sm) = mismatches sm"
  by (cases k) (simp_all add: count_item_def)

text \<open>What the item loop does to the state and to the summary.\<close>

lemma migrate_items_effect:
  assumes "migrate_items k maps key saleId items sm s = (res, s')"
  shows "sale s' = sale s
     \<and> (\<exists>new. sale_item s' = sale_item s @ new
           \<and> (\<forall>i \<in> set new. item_sale_id i = Some saleId
                 \<and> (\<exists>it \<in> set items. productMap maps (cod it) = item_product_id i
                        \<and> item_product_id i \<noteq> None))
           \<and> (\<forall>sm'. res = Inr sm' \<longrightarrow>
                 length new = length (filter (\<lambda>it. productMap maps (cod it) \<noteq> None) items)))
     \<and> (\<forall>sm'. res = Inr sm' \<longrightarrow>
           mismatches sm' =
             mismatches sm @ map (\<lambda>it. mismatch_message k key (cod it))
                                 (filter (\<lambda>it. productMap maps (cod it) = None) items))
     \<and> (\<forall>e. res = Inl e \<longrightarrow> (\<exists>c. e = NumericOverflow ''sale_item'' c))"
  using assms
proof (induction items arbitrary: sm s)
  case Nil
  then show ?case by (auto simp: returnE_def)
next
  case (Cons item items)
  show ?case
  proof (cases "productMap maps (cod item)")
    case None
    with Cons.prems have
      "migrate_items k maps key saleId items
         (sm\<lparr>mismatches := mismatches sm @ [mismatch_message k key (cod item)]\<rparr>) s = (res, s')"
      by simp
    from Cons.IH[OF this] None show ?thesis by auto
  next
    case (Some productId)
    obtain r1 s1 where ins: "insert_sale_item saleId productId item s = (r1, s1)"
      by (cases "insert_sale_item saleId productId item s")
    from insert_sale_item_cases[OF ins] show ?thesis
    proof (elim disjE conjE exE)
      fix new
      assume r1: "r1 = Inr ()"
        and s1: "s1 = exec (InsertInto ''sale_item'')
            (s\<lparr>sale_item := sale_item s @ [new], next_id := next_id s + 1\<rparr>)"
        and n: "item_sale_id new = Some saleId" "item_product_id new = Some productId"
      from Cons.prems Some ins r1 have
        "migrate_items k maps key saleId items (count_item k sm) s1 = (res, s')"
        by (simp add: bindE_def)
      from Cons.IH[OF this] obtain new' where
        a: "sale s' = sale s1" "sale_item s' = sale_item s1 @ new'"
          "\<forall>i \<in> set new'. item_sale_id i = Some saleId
                 \<and> (\<exists>it \<in> set items. productMap maps (cod it) = item_product_id i
                        \<and> item_product_id i \<noteq> None)"
          "\<forall>sm'. res = Inr sm' \<longrightarrow>
                 length new' = length (filter (\<lambda>it. productMap maps (cod it) \<noteq> None) items)"
          "\<forall>sm'. res = Inr sm' \<longrightarrow>
             mismatches sm' =
             mismatches (count_item k sm) @ map (\<lambda>it. mismatch_message k key (cod it))
                                 (filter (\<lambda>it. productMap maps (cod it) = None) items)"
          "\<forall>e. res = Inl e \<longrightarrow> (\<exists>c. e = NumericOverflow ''sale_item'' c)"
        by blast
      have "sale_item s' = sale_item s @ (new # new')"
        using a(2) s1 by (simp add: exec_def)
      moreover have "\<forall>i \<in> set (new # new'). item_sale_id i = Some saleId
                 \<and> (\<exists>it \<in> set (item # items). productMap maps (cod it) = item_product_id i
                        \<and> item_product_id i \<noteq> None)"
        using a(3) n Some by auto
      moreover have "\<forall>sm'. res = Inr sm' \<longrightarrow>
                 length (new # new') = length (filter (\<lambda>it. productMap maps (cod it) \<noteq> None) (item # items))"
        using a(4) Some by auto
      moreover have "sale s' = sale s" using a(1) s1 by (simp add: exec_def)
      ultimately show ?thesis using a(5,6) Some by (intro conjI exI[of _ "new # new'"]) auto
    next
      fix c
      assume r1: "r1 = Inl (NumericOverflow ''sale_item'' c)" and s1: "s1 = s"
      from Cons.prems Some ins r1 s1 have "res = Inl (NumericOverflow ''sale_item'' c)" "s' = s"
        by (simp_all add: bindE_def)
      then show ?thesis by auto
    qed
  qed
qed

lemma upsert_sale_header:
  "\<exists>saleId s1. upsert_sale k key v s = (Inr saleId, s1) \<and> sale_item s1 = sale_item s
     \<and> (\<exists>h \<in> set (sale s1). sale_id h = saleId \<and> source h = Some (label k)
            \<and> source_key h = Some key \<and> sale_values h = v)"
proof (cases "find (\<lambda>r. source r = Some (label k) \<and> source_key r = Some key) (sale s)")
  case None
  then show ?thesis by (simp add: upsert_sale_def exec_def)
next
  case (Some found)
  then have f: "found \<in> set (sale s)" "source found = Some (label k)" "source_key found = Some key"
    by (auto simp: find_Some_iff)
  let ?h = "found\<lparr>sale_values := v,
              sale_status := (case k of Vendas \<Rightarrow> sale_status found | Pedidos \<Rightarrow> ''draft'')\<rparr>"
  have "?h \<in> set (map (\<lambda>r. if source r = Some (label k) \<and> source_key r = Some key
                            then r\<lparr>sale_values := v,
                                   sale_status := (case k of Vendas \<Rightarrow> sale_status r
                                                   | Pedidos \<Rightarrow> ''draft'')\<rparr>
                            else r) (sale s))"
    using f by (auto simp: image_iff intro!: bexI[of _ found])
  then show ?thesis
    using Some f by (auto simp: upsert_sale_def exec_def intro!: bexI[of _ ?h])
qed

text \<open>
  C6 (as amended). For a staged row with an order key whose header statement succeeds,
  \<^verbatim>\<open>migrateSales\<close> creates or updates the header row under (source, source key) before it
  looks at the items. An extracted item whose product code is not in the product lookup
  gets no \<^verbatim>\<open>sale_item\<close> row: every item row of the sale comes from an item whose code
  resolved. When the row is processed to its end the mismatch list has grown by one
  message for each unresolved item, in slot order: \<open>Sale <key>: product <code> not found\<close>
  for a row of the sales table, \<open>Order <key>: product <code> not found\<close> for a row of the
  orders table. An unresolved item never fails the job: the only error the items can
  raise is the numeric overflow of an item that did resolve.
\<close>

theorem unresolved_product_is_skipped:
  assumes "sourceKey_of r = Some key" and "sale_header pf maps r key = Inr v"
    and "migrate_row pf k maps r sm s = (res, s')"
  shows "(\<exists>saleId.
        (\<exists>h \<in> set (sale s'). sale_id h = saleId \<and> source h = Some (label k)
            \<and> source_key h = Some key \<and> sale_values h = v)
      \<and> (\<forall>i \<in> set (sale_item s'). item_sale_id i = Some saleId \<longrightarrow>
            (\<exists>it \<in> set (extractSaleItems r).
               productMap maps (cod it) = item_product_id i \<and> item_product_id i \<noteq> None))
      \<and> (\<forall>sm'. res = Inr sm' \<longrightarrow>
            length (filter (\<lambda>i. item_sale_id i = Some saleId) (sale_item s')) =
            length (filter (\<lambda>it. productMap maps (cod it) \<noteq> None) (extractSaleItems r))))
    \<and> (\<forall>sm'. res = Inr sm' \<longrightarrow>
          mismatches sm' =
            mismatches sm @ map (\<lambda>it. mismatch_message k key (cod it))
                                (filter (\<lambda>it. productMap maps (cod it) = None) (extractSaleItems r)))
    \<and> (\<forall>e. res = Inl e \<longrightarrow> (\<exists>c. e = NumericOverflow ''sale_item'' c))
    \<and> ((\<forall>it \<in> set (extractSaleItems r). productMap maps (cod it) = None) \<longrightarrow>
          (\<exists>sm'. res = Inr sm'))
    \<and> mismatch_message Vendas key code = ''Sale '' @ key @ '': product '' @ code @ '' not found''
    \<and> mismatch_message Pedidos key code = ''Order '' @ key @ '': product '' @ code @ '' not found''"
proof -
  obtain saleId s1 h where up: "upsert_sale k key v s = (Inr saleId, s1)"
    and h: "h \<in> set (sale s1)" "sale_id h = saleId" "source h = Some (label k)"
      "source_key h = Some key" "sale_values h = v"
    using upsert_sale_header[of k key v s] by blast
  define s2 where "s2 = snd (delete_sale_items saleId s1)"
  have del: "delete_sale_items saleId s1 = (Inr (), s2)"
    by (simp add: s2_def delete_sale_items_def)
  have s2: "sale s2 = sale s1"
    "sale_item s2 = filter (\<lambda>i. item_sale_id i \<noteq> Some saleId) (sale_item s1)"
    by (simp_all add: s2_def delete_sale_items_def exec_def)
  obtain res3 s3 where it: "migrate_items k maps key saleId (extractSaleItems r) sm s2 = (res3, s3)"
    by (cases "migrate_items k maps key saleId (extractSaleItems r) sm s2")
  have row: "migrate_row pf k maps r sm s =
      (case res3 of Inl e \<Rightarrow> Inl e | Inr sm' \<Rightarrow> Inr (count_header k sm'), s3)"
    using assms(1,2) up del it
    by (auto simp: migrate_row_def bindE_def returnE_def split: sum.splits)
  then have res: "res = (case res3 of Inl e \<Rightarrow> Inl e | Inr sm' \<Rightarrow> Inr (count_header k sm'))"
    and s': "s' = s3" using assms(3) by simp_all
  from migrate_items_effect[OF it] obtain new where
    e: "sale s3 = sale s2" "sale_item s3 = sale_item s2 @ new"
       "\<forall>i \<in> set new. item_sale_id i = Some saleId
             \<and> (\<exists>it \<in> set (extractSaleItems r). productMap maps (cod it) = item_product_id i
                    \<and> item_product_id i \<noteq> None)"
       "\<forall>sm'. res3 = Inr sm' \<longrightarrow>
             length new = length (filter (\<lambda>it. productMap maps (cod it) \<noteq> None) (extractSaleItems r))"
       "\<forall>sm'. res3 = Inr sm' \<longrightarrow>
           mismatches sm' =
             mismatches sm @ map (\<lambda>it. mismatch_message k key (cod it))
                                 (filter (\<lambda>it. productMap maps (cod it) = None) (extractSaleItems r))"
       "\<forall>e. res3 = Inl e \<longrightarrow> (\<exists>c. e = NumericOverflow ''sale_item'' c)"
    by blast
  have mh: "mismatches (count_header k x) = mismatches x" for x
    by (cases k) (simp_all add: count_header_def)
  have header: "\<exists>h \<in> set (sale s'). sale_id h = saleId \<and> source h = Some (label k)
            \<and> source_key h = Some key \<and> sale_values h = v"
    using h e(1) s2(1) s' by auto
  have items: "\<forall>i \<in> set (sale_item s'). item_sale_id i = Some saleId \<longrightarrow>
            (\<exists>it \<in> set (extractSaleItems r).
               productMap maps (cod it) = item_product_id i \<and> item_product_id i \<noteq> None)"
    using e(2,3) s2(2) s' by auto
  have flt: "filter (\<lambda>i. item_sale_id i = Some saleId) (sale_item s') = new"
    using e(2,3) s2(2) s' by (simp add: filter_id_conv)
  have cnt: "\<forall>sm'. res = Inr sm' \<longrightarrow>
            length (filter (\<lambda>i. item_sale_id i = Some saleId) (sale_item s')) =
            length (filter (\<lambda>it. productMap maps (cod it) \<noteq> None) (extractSaleItems r))"
  proof (intro allI impI)
    fix sm' assume "res = Inr sm'"
    then obtain sm3 where "res3 = Inr sm3" using res by (cases res3) auto
    then show "length (filter (\<lambda>i. item_sale_id i = Some saleId) (sale_item s')) =
            length (filter (\<lambda>it. productMap maps (cod it) \<noteq> None) (extractSaleItems r))"
      using e(4) flt by simp
  qed
  have mis: "\<forall>sm'. res = Inr sm' \<longrightarrow>
          mismatches sm' =
            mismatches sm @ map (\<lambda>it. mismatch_message k key (cod it))
                                (filter (\<lambda>it. productMap maps (cod it) = None) (extractSaleItems r))"
  proof (intro allI impI)
    fix sm' assume a: "res = Inr sm'"
    then obtain sm3 where r3: "res3 = Inr sm3" using res by (cases res3) auto
    then have "sm' = count_header k sm3" using a res by simp
    then show "mismatches sm' =
            mismatches sm @ map (\<lambda>it. mismatch_message k key (cod it))
                                (filter (\<lambda>it. productMap maps (cod it) = None) (extractSaleItems r))"
      using e(5) r3 mh[of sm3] by simp
  qed
  have err: "\<forall>e. res = Inl e \<longrightarrow> (\<exists>c. e = NumericOverflow ''sale_item'' c)"
  proof (intro allI impI)
    fix e assume a: "res = Inl e"
    then have "res3 = Inl e" using res by (cases res3) auto
    then show "\<exists>c. e = NumericOverflow ''sale_item'' c" using e(6) by simp
  qed
  have ok: "(\<forall>it \<in> set (extractSaleItems r). productMap maps (cod it) = None) \<longrightarrow>
          (\<exists>sm'. res = Inr sm')"
  proof
    assume "\<forall>it \<in> set (extractSaleItems r). productMap maps (cod it) = None"
    then have "\<exists>sm3. res3 = Inr sm3"
      using migrate_items_unresolved[of "extractSaleItems r" maps k key saleId sm s2] it by simp
    then show "\<exists>sm'. res = Inr sm'" using res by auto
  qed
  have msg: "mismatch_message Vendas key code = ''Sale '' @ key @ '': product '' @ code @ '' not found''"
    "mismatch_message Pedidos key code = ''Order '' @ key @ '': product '' @ code @ '' not found''"
    by (simp_all add: mismatch_message_def)
  show ?thesis
    using header items cnt mis err ok msg by blast
qed

lemma extract_row77:
  "extractSaleItems row77 = [\<lparr>cod = ''P9'', quantity = 0, price = 0, total = 0\<rparr>]"
  using extract_loop_closed[of 1 row77 "[]"]
  by (simp add: extractSaleItems_def row77_def upt_1_8 show_nat_digits cell_def or_zero_def
      js_trim_def is_ws_def)

lemma header_row77:
  "sourceKey_of row77 = Some ''77''"
  "sale_header dated_platform no_lookups row77 ''77'' =
     Inr \<lparr>emission_date = 1705276800000, order_number = Some ''77'', seller_id = None,
          customer_id = None, payment_term_id = None, subtotal = None, discount = None,
          sale_total = None\<rparr>"
  by (simp_all add: sourceKey_of_def row77_def sale_header_def bindS_def numeric_col_def cell_def
      not_null_def normalizeDate_def dated_platform_def lookup_code_def no_lookups_def
      js_trim_def is_ws_def)

theorem unresolved_product_is_skipped_witness:
  "\<exists>sm'. fst (migrate_row dated_platform Vendas no_lookups row77 no_summary fresh_db) = Inr sm'
      \<and> mismatches sm' = [''Sale 77: product P9 not found'']
      \<and> (\<exists>h \<in> set (sale (snd (migrate_row dated_platform Vendas no_lookups row77 no_summary fresh_db))).
            source h = Some ''VENDAS'' \<and> source_key h = Some ''77'')"
  using unresolved_product_is_skipped
    [OF header_row77(1) header_row77(2),
     of Vendas no_summary fresh_db
        "fst (migrate_row dated_platform Vendas no_lookups row77 no_summary fresh_db)"
        "snd (migrate_row dated_platform Vendas no_lookups row77 no_summary fresh_db)" "''P9''"]
  by (auto simp: extract_row77 no_lookups_def no_summary_def mismatch_message_def label_def)

text \<open>
  The claim as stated fails for a row of the orders table: the message of its unresolved
  item starts with \<open>Order\<close>, and no message starting with \<open>Sale\<close> is recorded.
\<close>

theorem order_mismatch_message_counterexample:
  "fst (migrateSales dated_platform False
          (fresh_db\<lparr>staging := (\<lambda>t. if t = ''stg_pedidos'' then [row77] else [])\<rparr>))
   = Inr \<lparr>sales = 0, saleItems = 0, orders = 1, orderItems = 0,
          mismatches = [''Order 77: product P9 not found'']\<rparr>
   \<and> ''Sale 77: product P9 not found'' \<notin> set [''Order 77: product P9 not found'']"
  by (simp add: migrateSales_def bindE_def returnE_def throwE_def read_lookups_def select_staging_def
      fresh_db_def buildLegacyMap_def migrate_row_def header_row77[unfolded no_lookups_def]
      upsert_sale_def delete_sale_items_def exec_def extract_row77 mismatch_message_def
      count_header_def label_def)

end
